theory Spec2Isabelle
  imports Complex_Main "HOL-Library.Log_Nat"
begin

section \<open>Tidal Earth-Moon models and their fixed-step solvers\<close>

text \<open>
  The package \<^verbatim>\<open>gezeiten\<close> integrates ordinary differential equations of an
  Earth-Moon system. This theory embeds its right-hand sides, its two hand-written
  solvers and the ocean-mass fit.

  Python floats are read as real numbers: \<open>+\<close>, \<open>*\<close>, \<open>/\<close>, \<open>sqrt\<close>, \<open>sin\<close>, \<open>cos\<close> are
  the exact operations, \<open>np.pi\<close> is \<open>pi\<close>. Rounding is modelled apart, for the one
  place where it decides how many samples a solver returns.
  Where the source would produce \<open>inf\<close> or \<open>nan\<close> (a division by zero on numpy
  scalars) the real numbers have no such value. Theorems about right-hand sides
  therefore assume nonzero separations. The ocean-mass fit, whose divisions can meet a
  zero and whose loop goes on with the result, computes with floats that have
  infinities and nan.
\<close>

subsection \<open>Errors\<close>

datatype error =
    ValueError          \<comment> \<open>tuple unpacking of the wrong length, shapes that do not broadcast,
                            \<^verbatim>\<open>round\<close> of a nan\<close>
  | IndexError          \<comment> \<open>index out of range\<close>
  | ZeroDivisionError   \<comment> \<open>division of Python numbers by zero\<close>
  | AttributeError      \<comment> \<open>\<^verbatim>\<open>.T\<close> of a Python list\<close>
  | TypeError           \<comment> \<open>subscript of \<^verbatim>\<open>None\<close>\<close>
  | KeyError            \<comment> \<open>missing dictionary key\<close>
  | OverflowError       \<comment> \<open>\<^verbatim>\<open>round\<close> of an infinity\<close>

subsection \<open>\<^verbatim>\<open>constants.py\<close>\<close>

definition m_E :: real where "m_E = 5.9721986 * 10 ^ 24"
definition m_O :: real where "m_O = 0.0014 * 10 ^ 24"
definition r_E :: real where "r_E = 6.3675 * 10 ^ 6"
definition m_M :: real where "m_M = 7.3459 * 10 ^ 22"
definition r_M :: real where "r_M = 3.836 * 10 ^ 8"
definition T_M :: real where "T_M = 27.32166140 * 24 * 3600"
definition tau :: real where "tau = 0.0021"
definition G :: real where "G = 6.67430 / 10 ^ 11"
definition r_C :: real where "r_C = r_M * m_M / (m_M + m_E)"
definition k :: real where "k = 2 / 10 ^ 12"

subsection \<open>Right-hand sides\<close>

type_synonym rhs = "real \<Rightarrow> real list \<Rightarrow> error + real list"

text \<open>\<^verbatim>\<open>TwoBodyProblem.f\<close>; the tuple assignment raises unless \<open>r\<close> has 8 entries.\<close>

definition TwoBodyProblem_f :: rhs where
  "TwoBodyProblem_f t r =
    (if length r \<noteq> 8 then Inl ValueError
     else
       let x_E = r ! 0; vx_E = r ! 1; y_E = r ! 2; vy_E = r ! 3;
           x_M = r ! 4; vx_M = r ! 5; y_M = r ! 6; vy_M = r ! 7;
           abs_r = sqrt ((x_E - x_M) ^ 2 + (y_E - y_M) ^ 2);
           f_1 = vx_E;
           f_2 = - G * m_M * (x_E - x_M) / abs_r ^ 3;
           f_3 = vy_E;
           f_4 = - G * m_M * (y_E - y_M) / abs_r ^ 3;
           f_5 = vx_M;
           f_6 = - G * m_E * (x_M - x_E) / abs_r ^ 3;
           f_7 = vy_M;
           f_8 = - G * m_E * (y_M - y_E) / abs_r ^ 3
       in Inr [f_1, f_2, f_3, f_4, f_5, f_6, f_7, f_8])"

text \<open>The distance of a tide particle at angle \<open>phi\<close> from the Moon.\<close>

definition distance_F_moon :: "real \<Rightarrow> real \<Rightarrow> real \<Rightarrow> real \<Rightarrow> real \<Rightarrow> real" where
  "distance_F_moon x_E y_E x_M y_M phi =
     sqrt ((r_E * cos phi + x_E - x_M) ^ 2 + (r_E * sin phi + y_E - y_M) ^ 2)"

text \<open>\<^verbatim>\<open>FourBodyProblemSimple.f\<close>, with the global \<open>m_O\<close>.\<close>

definition FourBodyProblemSimple_f :: rhs where
  "FourBodyProblemSimple_f t r =
    (if length r \<noteq> 12 then Inl ValueError
     else
       let x_E = r ! 0; vx_E = r ! 1; y_E = r ! 2; vy_E = r ! 3;
           x_M = r ! 4; vx_M = r ! 5; y_M = r ! 6; vy_M = r ! 7;
           phi1 = r ! 8; vphi1 = r ! 9; phi2 = r ! 10; vphi2 = r ! 11;
           distance_earth_moon = sqrt ((x_M - x_E) ^ 2 + (y_M - y_E) ^ 2);
           distance_F1_moon = distance_F_moon x_E y_E x_M y_M phi1;
           distance_F2_moon = distance_F_moon x_E y_E x_M y_M phi2;
           f_1 = vx_E;
           f_2 = - G * m_M * (x_E - x_M) / distance_earth_moon ^ 3;
           f_3 = vy_E;
           f_4 = - G * m_M * (y_E - y_M) / distance_earth_moon ^ 3;
           f_5 = vx_M;
           f_6 = - G * (m_E * (x_M - x_E) / distance_earth_moon ^ 3
                   + 1 / 2 * m_O * ((x_M - r_E * cos phi1 - x_E) / distance_F1_moon ^ 3
                                    + (x_M - r_E * cos phi2 - x_E) / distance_F2_moon ^ 3));
           f_7 = vy_M;
           f_8 = - G * (m_E * (y_M - y_E) / distance_earth_moon ^ 3
                   + 1 / 2 * m_O * ((y_M - r_E * sin phi1 - y_E) / distance_F1_moon ^ 3
                                    + (y_M - r_E * sin phi2 - y_E) / distance_F2_moon ^ 3));
           f_9 = vphi1;
           f_10 = 1 / r_E * ((- G * m_M * (x_E - x_M) / distance_earth_moon ^ 3) * sin phi1
                    - (- G * m_M * (y_E - y_M) / distance_earth_moon ^ 3) * cos phi1
                    - m_M * G * ((r_E * sin phi1 + y_E - y_M) * cos phi1
                                 - (r_E * cos phi1 + x_E - x_M) * sin phi1)
                      / distance_F1_moon ^ 3);
           f_11 = vphi2;
           f_12 = 1 / r_E * ((- G * m_M * (x_E - x_M) / distance_earth_moon ^ 3) * sin phi2
                    - (- G * m_M * (y_E - y_M) / distance_earth_moon ^ 3) * cos phi2
                    - m_M * G * ((r_E * sin phi2 + y_E - y_M) * cos phi2
                                 - (r_E * cos phi2 + x_E - x_M) * sin phi2)
                      / distance_F2_moon ^ 3)
       in Inr [f_1, f_2, f_3, f_4, f_5, f_6, f_7, f_8, f_9, f_10, f_11, f_12])"

text \<open>
  \<^verbatim>\<open>FourBodyProblemComplex.f\<close> is a method: it reads the object's field
  \<^verbatim>\<open>self.m_O\<close>, here the first argument.
\<close>

definition FourBodyProblemComplex_f :: "real \<Rightarrow> rhs" where
  "FourBodyProblemComplex_f self_m_O t r =
    (if length r \<noteq> 14 then Inl ValueError
     else
       let x_E = r ! 0; vx_E = r ! 1; y_E = r ! 2; vy_E = r ! 3;
           x_M = r ! 4; vx_M = r ! 5; y_M = r ! 6; vy_M = r ! 7;
           phi1 = r ! 8; vphi1 = r ! 9; phi2 = r ! 10; vphi2 = r ! 11;
           phi_E = r ! 12; vphi_E = r ! 13;
           distance_earth_moon = sqrt ((x_M - x_E) ^ 2 + (y_M - y_E) ^ 2);
           distance_F1_moon = distance_F_moon x_E y_E x_M y_M phi1;
           distance_F2_moon = distance_F_moon x_E y_E x_M y_M phi2;
           f_1 = vx_E;
           f_2 = - G * m_M * (x_E - x_M) / distance_earth_moon ^ 3;
           f_3 = vy_E;
           f_4 = - G * m_M * (y_E - y_M) / distance_earth_moon ^ 3;
           f_5 = vx_M;
           f_6 = - G * (m_E * (x_M - x_E) / distance_earth_moon ^ 3
                   + 1 / 2 * self_m_O * ((x_M - r_E * cos phi1 - x_E) / distance_F1_moon ^ 3
                                         + (x_M - r_E * cos phi2 - x_E) / distance_F2_moon ^ 3));
           f_7 = vy_M;
           f_8 = - G * (m_E * (y_M - y_E) / distance_earth_moon ^ 3
                   + 1 / 2 * self_m_O * ((y_M - r_E * sin phi1 - y_E) / distance_F1_moon ^ 3
                                         + (y_M - r_E * sin phi2 - y_E) / distance_F2_moon ^ 3));
           f_9 = vphi1;
           f_10 = 1 / r_E * ((- G * m_M * (x_E - x_M) / distance_earth_moon ^ 3) * sin phi1
                    - (- G * m_M * (y_E - y_M) / distance_earth_moon ^ 3) * cos phi1
                    - m_M * G * ((r_E * sin phi1 + y_E - y_M) * cos phi1
                                 - (r_E * cos phi1 + x_E - x_M) * sin phi1)
                      / distance_F1_moon ^ 3)
                  - r_E * k * \<bar>vphi1 - vphi_E\<bar> * (vphi1 - vphi_E);
           f_11 = vphi2;
           f_12 = 1 / r_E * ((- G * m_M * (x_E - x_M) / distance_earth_moon ^ 3) * sin phi2
                    - (- G * m_M * (y_E - y_M) / distance_earth_moon ^ 3) * cos phi2
                    - m_M * G * ((r_E * sin phi2 + y_E - y_M) * cos phi2
                                 - (r_E * cos phi2 + x_E - x_M) * sin phi2)
                      / distance_F2_moon ^ 3)
                  - r_E * k * \<bar>vphi2 - vphi_E\<bar> * (vphi2 - vphi_E);
           f_13 = vphi_E;
           f_14 = 5 / 4 * r_E * self_m_O / m_E * k
                    * (\<bar>vphi1 - vphi_E\<bar> * (vphi1 - vphi_E) + \<bar>vphi2 - vphi_E\<bar> * (vphi2 - vphi_E))
       in Inr [f_1, f_2, f_3, f_4, f_5, f_6, f_7, f_8, f_9, f_10, f_11, f_12, f_13, f_14])"

text \<open>
  \<^verbatim>\<open>NBodyProblem.f\<close>. The class constant \<^verbatim>\<open>NBodyProblem.N\<close> is the first
  argument; the source fixes it to 10.

  \<^verbatim>\<open>r[:10]\<close> is unpacked into ten names (\<open>ValueError\<close> when \<open>r\<close> is shorter), the rest
  \<^verbatim>\<open>r_N = r[10:]\<close> holds an angle and an angular velocity per tide particle. The loop
  over \<^verbatim>\<open>range(0, 2 * N, 2)\<close> reads \<^verbatim>\<open>r_N[i + 1]\<close> first, which raises
  \<open>IndexError\<close> past the end of \<open>r_N\<close>. After the loop \<^verbatim>\<open>m_O / NBodyProblem.N\<close>
  divides Python numbers, which raises for \<open>N = 0\<close>.
\<close>

definition NBodyProblem_N :: nat where "NBodyProblem_N = 10"

fun every_second :: "'a list \<Rightarrow> 'a list" where
  "every_second [] = []"
| "every_second [x] = [x]"
| "every_second (x # y # xs) = x # every_second xs"

record tide_sums =
  f_N :: "real list"
  sum_M_x :: real
  sum_M_y :: real
  sum_E :: real

fun tide_loop ::
  "real \<Rightarrow> real \<Rightarrow> real \<Rightarrow> real \<Rightarrow> real \<Rightarrow> real \<Rightarrow> real list \<Rightarrow> real list \<Rightarrow>
   nat list \<Rightarrow> tide_sums \<Rightarrow> error + tide_sums" where
  "tide_loop x_E y_E x_M y_M vphi_E distance_earth_moon r_N distance_FN_moon [] acc = Inr acc"
| "tide_loop x_E y_E x_M y_M vphi_E distance_earth_moon r_N distance_FN_moon (i # is) acc =
    (if length r_N \<le> i + 1 then Inl IndexError
     else
       let phi = r_N ! i; vphi = r_N ! (i + 1); d = distance_FN_moon ! (i div 2);
           acc' = \<lparr>
             f_N = f_N acc @
               [vphi,
                1 / r_E * ((- G * m_M * (x_E - x_M) / distance_earth_moon ^ 3) * sin phi
                   - (- G * m_M * (y_E - y_M) / distance_earth_moon ^ 3) * cos phi
                   - m_M * G * ((r_E * sin phi + y_E - y_M) * cos phi
                                - (r_E * cos phi + x_E - x_M) * sin phi)
                     / d ^ 3)
                - r_E * k * \<bar>vphi - vphi_E\<bar> * (vphi - vphi_E)],
             sum_M_x = sum_M_x acc + (x_M - r_E * cos phi - x_E) / d ^ 3,
             sum_M_y = sum_M_y acc + (y_M - r_E * sin phi - y_E) / d ^ 3,
             sum_E = sum_E acc + \<bar>vphi - vphi_E\<bar> * (vphi - vphi_E) \<rparr>
       in tide_loop x_E y_E x_M y_M vphi_E distance_earth_moon r_N distance_FN_moon is acc')"

definition NBodyProblem_f :: "nat \<Rightarrow> rhs" where
  "NBodyProblem_f N t r =
    (if length r < 10 then Inl ValueError
     else
       let x_E = r ! 0; vx_E = r ! 1; y_E = r ! 2; vy_E = r ! 3;
           x_M = r ! 4; vx_M = r ! 5; y_M = r ! 6; vy_M = r ! 7;
           phi_E = r ! 8; vphi_E = r ! 9;
           r_N = drop 10 r;
           distance_earth_moon = sqrt ((x_M - x_E) ^ 2 + (y_M - y_E) ^ 2);
           distance_FN_moon = map (distance_F_moon x_E y_E x_M y_M) (every_second r_N);
           f_1 = vx_E;
           f_2 = - G * m_M * (x_E - x_M) / distance_earth_moon ^ 3;
           f_3 = vy_E;
           f_4 = - G * m_M * (y_E - y_M) / distance_earth_moon ^ 3
       in
         case tide_loop x_E y_E x_M y_M vphi_E distance_earth_moon r_N distance_FN_moon
                (map (\<lambda>j. 2 * j) [0..<N])
                \<lparr>f_N = [], sum_M_x = 0, sum_M_y = 0, sum_E = 0\<rparr> of
           Inl e \<Rightarrow> Inl e
         | Inr s \<Rightarrow>
             if N = 0 then Inl ZeroDivisionError
             else
               let f_5 = vx_M;
                   f_6 = - G * (m_E * (x_M - x_E) / distance_earth_moon ^ 3
                                + m_O / real N * sum_M_x s);
                   f_7 = vy_M;
                   f_8 = - G * (m_E * (y_M - y_E) / distance_earth_moon ^ 3
                                + m_O / real N * sum_M_y s);
                   f_9 = vphi_E;
                   f_10 = 5 / 2 * r_E * m_O / (real N * m_E) * k * sum_E s
               in Inr ([f_1, f_2, f_3, f_4, f_5, f_6, f_7, f_8, f_9, f_10] @ f_N s))"

subsection \<open>Initial conditions of the four model classes\<close>

definition TwoBodyProblem_initial_conditions :: "real list" where
  "TwoBodyProblem_initial_conditions =
    [- r_C, 0, 0, - 2 * pi * r_C / T_M, r_M - r_C, 0, 0, 2 * pi * (r_M - r_C) / T_M]"

definition FourBodyProblemSimple_initial_conditions :: "real list" where
  "FourBodyProblemSimple_initial_conditions =
    [- r_C, 0, 0, - 2 * pi * r_C / T_M, r_M - r_C, 0, 0, 2 * pi * (r_M - r_C) / T_M,
     0, 2 * pi / T_M, pi, 2 * pi / T_M]"

definition FourBodyProblemComplex_initial_conditions :: "real list" where
  "FourBodyProblemComplex_initial_conditions =
    [- r_C, 0, 0, - 2 * pi * r_C / T_M, r_M - r_C, 0, 0, 2 * pi * (r_M - r_C) / T_M,
     0, 2 * pi / T_M, pi, 2 * pi / T_M,
     0, 2 * pi / (24 * 60 * 60)]"

text \<open>
  The class body of \<^verbatim>\<open>NBodyProblem\<close> appends, for \<open>i\<close> in \<^verbatim>\<open>range(0, 2 * N, 2)\<close>,
  the angle \<^verbatim>\<open>np.pi / N * i\<close> and the angular velocity \<^verbatim>\<open>2 * np.pi / T_M\<close>.
\<close>

definition NBodyProblem_initial_conditions :: "nat \<Rightarrow> real list" where
  "NBodyProblem_initial_conditions N =
    [- r_C, 0, 0, - 2 * pi * r_C / T_M, r_M - r_C, 0, 0, 2 * pi * (r_M - r_C) / T_M,
     0, 2 * pi / (24 * 60 * 60)]
    @ concat (map (\<lambda>i. [pi / real N * real i, 2 * pi / T_M]) (map (\<lambda>j. 2 * j) [0..<N]))"

subsection \<open>States with separated bodies\<close>

text \<open>
  The right-hand sides divide by the cube of the Earth-Moon distance and of each
  tide-Moon distance. The predicates below say that a state has the length a model
  unpacks and that none of these distances is zero.
\<close>

definition earth_moon_apart :: "real list \<Rightarrow> bool" where
  "earth_moon_apart r \<longleftrightarrow> sqrt ((r ! 4 - r ! 0) ^ 2 + (r ! 6 - r ! 2) ^ 2) \<noteq> 0"

definition tide_moon_apart :: "real list \<Rightarrow> real \<Rightarrow> bool" where
  "tide_moon_apart r phi \<longleftrightarrow> distance_F_moon (r ! 0) (r ! 2) (r ! 4) (r ! 6) phi \<noteq> 0"

definition TwoBody_state_ok :: "real list \<Rightarrow> bool" where
  "TwoBody_state_ok r \<longleftrightarrow> length r = 8 \<and> earth_moon_apart r"

definition FourBody_state_ok :: "nat \<Rightarrow> real list \<Rightarrow> bool" where
  "FourBody_state_ok n r \<longleftrightarrow>
     length r = n \<and> earth_moon_apart r \<and> tide_moon_apart r (r ! 8) \<and> tide_moon_apart r (r ! 10)"

definition NBody_state_ok :: "nat \<Rightarrow> real list \<Rightarrow> bool" where
  "NBody_state_ok N r \<longleftrightarrow>
     length r = 10 + 2 * N \<and> earth_moon_apart r \<and>
     (\<forall>phi \<in> set (every_second (drop 10 r)). tide_moon_apart r phi)"

text \<open>
  The state layout of \<^verbatim>\<open>FourBodyProblemComplex\<close> keeps Earth's rotation
  \<open>(phi_E, vphi_E)\<close> at indices 12 and 13, \<^verbatim>\<open>NBodyProblem\<close> keeps it at 8 and 9,
  before the tide particles.
\<close>

definition to_NBody_layout :: "real list \<Rightarrow> real list" where
  "to_NBody_layout r = take 8 r @ drop 12 r @ take 4 (drop 8 r)"

subsection \<open>\<^verbatim>\<open>DifferentialEquation\<close>: what a solver reads\<close>

record model =
  differential_equation_function :: rhs
  initial_conditions :: "real list"
  time_boundaries :: "real \<times> real"
  data_points_amount :: int

subsection \<open>The numpy operations the solvers use\<close>

text \<open>
  \<^verbatim>\<open>np.arange(start, stop, step)\<close> in exact arithmetic: \<open>\<lceil>(stop - start) / step\<rceil>\<close>
  values \<open>start + i * step\<close>, none when that number is not positive. A zero step
  raises.
\<close>

definition np_arange :: "real \<Rightarrow> real \<Rightarrow> real \<Rightarrow> error + real list" where
  "np_arange start stop step =
    (if step = 0 then Inl ZeroDivisionError
     else Inr (map (\<lambda>i. start + real i * step) [0..<nat \<lceil>(stop - start) / step\<rceil>]))"

text \<open>
  \<^verbatim>\<open>a + b\<close> on one-dimensional arrays broadcasts an operand of length 1;
  \<^verbatim>\<open>r += d\<close> writes into \<open>r\<close>, so only \<open>d\<close> may be broadcast.
\<close>

definition np_add :: "real list \<Rightarrow> real list \<Rightarrow> error + real list" where
  "np_add a b =
    (if length a = length b then Inr (map2 (+) a b)
     else if length b = 1 then Inr (map (\<lambda>x. x + b ! 0) a)
     else if length a = 1 then Inr (map (\<lambda>y. a ! 0 + y) b)
     else Inl ValueError)"

definition np_iadd :: "real list \<Rightarrow> real list \<Rightarrow> error + real list" where
  "np_iadd r d =
    (if length d = length r then Inr (map2 (+) r d)
     else if length d = 1 then Inr (map (\<lambda>x. x + d ! 0) r)
     else Inl ValueError)"

definition np_scale :: "real \<Rightarrow> real list \<Rightarrow> real list" where
  "np_scale c v = map (\<lambda>x. c * x) v"

definition np_div :: "real list \<Rightarrow> real \<Rightarrow> real list" where
  "np_div v c = map (\<lambda>x. x / c) v"

text \<open>
  What a solver returns as its second component: \<^verbatim>\<open>EulerSolver\<close> always an
  array with one row per state, \<^verbatim>\<open>RungeKuttaSolver\<close> the Python list it started
  with when its loop never ran.
\<close>

datatype 'a state_series = PyList "'a list list" | NdArray "'a list list"

fun rows_of :: "'a state_series \<Rightarrow> 'a list list" where
  "rows_of (PyList rows) = rows"
| "rows_of (NdArray rows) = rows"

type_synonym solver = "model \<Rightarrow> error + real list \<times> real state_series"

subsection \<open>\<^verbatim>\<open>EulerSolver.solve\<close>\<close>

text \<open>
  The loop \<^verbatim>\<open>for t in t_points[1:]\<close>: \<open>r\<close> is the running state, updated in place by
  \<^verbatim>\<open>r += h * f(t, r)\<close>, and a copy of it is appended to \<open>r_points\<close>.
\<close>

fun euler_loop :: "rhs \<Rightarrow> real \<Rightarrow> real list \<Rightarrow> real list \<Rightarrow> real list list \<Rightarrow> error + real list list" where
  "euler_loop f h [] r r_points = Inr r_points"
| "euler_loop f h (t # ts) r r_points =
    (case f t r of
       Inl e \<Rightarrow> Inl e
     | Inr d \<Rightarrow>
        (case np_iadd r (np_scale h d) of
           Inl e \<Rightarrow> Inl e
         | Inr r' \<Rightarrow> euler_loop f h ts r' (r_points @ [r'])))"

definition EulerSolver_solve :: solver where
  "EulerSolver_solve differential_equation =
    (let (a, b) = time_boundaries differential_equation in
     if data_points_amount differential_equation = 0 then Inl ZeroDivisionError
     else
       let h = (b - a) / real_of_int (data_points_amount differential_equation) in
       case np_arange a b h of
         Inl e \<Rightarrow> Inl e
       | Inr t_points \<Rightarrow>
           let r = initial_conditions differential_equation in
           case euler_loop (differential_equation_function differential_equation) h
                  (drop 1 t_points) r [r] of
             Inl e \<Rightarrow> Inl e
           | Inr r_points \<Rightarrow> Inr (t_points, NdArray r_points))"

subsection \<open>\<^verbatim>\<open>RungeKuttaSolver.solve\<close>\<close>

text \<open>
  Here \<^verbatim>\<open>r_points = [r]\<close> is a Python list that holds the array \<open>r\<close> itself, not a
  copy, and \<^verbatim>\<open>r += ...\<close> changes that array in place. The first
  \<^verbatim>\<open>np.append(r_points, [r], axis=0)\<close> therefore builds its array from the list
  after the update: both rows are the new state. From then on \<open>r_points\<close> is an
  array of its own and only receives copies.

  The array \<open>r\<close> is created without a dtype. For initial conditions that are all
  Python ints numpy makes an integer array, and the first \<^verbatim>\<open>r += ...\<close> with a float
  increment raises; real numbers do not show that difference. The model is of float
  initial conditions, which all four model classes have.
\<close>

datatype rk_points = AliasList | Rows "real list list"

fun rk_append :: "rk_points \<Rightarrow> real list \<Rightarrow> rk_points" where
  "rk_append AliasList r = Rows [r, r]"
| "rk_append (Rows rows) r = Rows (rows @ [r])"

fun rk_result :: "rk_points \<Rightarrow> real list \<Rightarrow> real state_series" where
  "rk_result AliasList r = PyList [r]"
| "rk_result (Rows rows) r = NdArray rows"

text \<open>Sequencing of steps that may raise.\<close>

definition err_bind :: "error + 'a \<Rightarrow> ('a \<Rightarrow> error + 'b) \<Rightarrow> error + 'b" where
  "err_bind x g = (case x of Inl e \<Rightarrow> Inl e | Inr v \<Rightarrow> g v)"

text \<open>One pass of the loop body: the increment \<^verbatim>\<open>(k_1 + 2 * k_2 + 2 * k_3 + k_4) / 6\<close>
  computed with the loop variable \<open>t\<close> and the state \<open>r\<close>.\<close>

definition rk_increment :: "rhs \<Rightarrow> real \<Rightarrow> real \<Rightarrow> real list \<Rightarrow> error + real list" where
  "rk_increment f h t r =
     err_bind (f t r) (\<lambda>d1.
     let k_1 = np_scale h d1 in
     err_bind (np_add r (np_div k_1 2)) (\<lambda>r1.
     err_bind (f (t + h / 2) r1) (\<lambda>d2.
     let k_2 = np_scale h d2 in
     err_bind (np_add r (np_div k_2 2)) (\<lambda>r2.
     err_bind (f (t + h / 2) r2) (\<lambda>d3.
     let k_3 = np_scale h d3 in
     err_bind (np_add r k_3) (\<lambda>r3.
     err_bind (f (t + h) r3) (\<lambda>d4.
     let k_4 = np_scale h d4 in
     err_bind (np_add k_1 (np_scale 2 k_2)) (\<lambda>s1.
     err_bind (np_add s1 (np_scale 2 k_3)) (\<lambda>s2.
     err_bind (np_add s2 k_4) (\<lambda>s3.
     Inr (np_div s3 6)))))))))))"

fun rk_loop ::
  "rhs \<Rightarrow> real \<Rightarrow> real list \<Rightarrow> real list \<Rightarrow> rk_points \<Rightarrow> error + real state_series" where
  "rk_loop f h [] r r_points = Inr (rk_result r_points r)"
| "rk_loop f h (t # ts) r r_points =
    (case rk_increment f h t r of
       Inl e \<Rightarrow> Inl e
     | Inr d \<Rightarrow>
        (case np_iadd r d of
           Inl e \<Rightarrow> Inl e
         | Inr r' \<Rightarrow> rk_loop f h ts r' (rk_append r_points r')))"

definition RungeKuttaSolver_solve :: solver where
  "RungeKuttaSolver_solve differential_equation =
    (let (a, b) = time_boundaries differential_equation in
     if data_points_amount differential_equation = 0 then Inl ZeroDivisionError
     else
       let h = (b - a) / real_of_int (data_points_amount differential_equation) in
       case np_arange a b h of
         Inl e \<Rightarrow> Inl e
       | Inr t_points \<Rightarrow>
           let r = initial_conditions differential_equation in
           case rk_loop (differential_equation_function differential_equation) h
                  (drop 1 t_points) r AliasList of
             Inl e \<Rightarrow> Inl e
           | Inr r_points \<Rightarrow> Inr (t_points, r_points))"

subsection \<open>Floats with infinities and nan\<close>

text \<open>
  The fit of \<^verbatim>\<open>exercise_2_3_c.py\<close> divides by quantities that can be zero. Its operands
  are numpy \<^verbatim>\<open>float64\<close> scalars, on which a division by zero raises nothing: it returns
  an infinity or nan, with a warning, and the program goes on with that value. The
  values of the fit are therefore floats with their special values: a real number,
  negative zero, the two infinities and nan; \<open>Fin 0\<close> is positive zero. On numbers the
  operations are the exact ones, as everywhere in this theory (no rounding, no
  overflow, no underflow); zeros, infinities and nan follow IEEE 754 with rounding to
  nearest.
\<close>

datatype float64 = Fin real | NegZero | PosInf | NegInf | NaN

fun sign_bit :: "float64 \<Rightarrow> bool" where
  "sign_bit (Fin x) = (x < 0)"
| "sign_bit NegZero = True"
| "sign_bit PosInf = False"
| "sign_bit NegInf = True"
| "sign_bit NaN = False"

fun is_zero :: "float64 \<Rightarrow> bool" where
  "is_zero (Fin x) = (x = 0)"
| "is_zero NegZero = True"
| "is_zero PosInf = False"
| "is_zero NegInf = False"
| "is_zero NaN = False"

fun is_inf :: "float64 \<Rightarrow> bool" where
  "is_inf (Fin x) = False"
| "is_inf NegZero = False"
| "is_inf PosInf = True"
| "is_inf NegInf = True"
| "is_inf NaN = False"

text \<open>The number that a float is, when it is neither infinite nor nan.\<close>

fun number :: "float64 \<Rightarrow> real" where
  "number (Fin x) = x"
| "number NegZero = 0"
| "number PosInf = 0"
| "number NegInf = 0"
| "number NaN = 0"

definition signed_zero :: "bool \<Rightarrow> float64" where
  "signed_zero negative = (if negative then NegZero else Fin 0)"

definition signed_inf :: "bool \<Rightarrow> float64" where
  "signed_inf negative = (if negative then NegInf else PosInf)"

fun f64_neg :: "float64 \<Rightarrow> float64" where
  "f64_neg (Fin x) = (if x = 0 then NegZero else Fin (- x))"
| "f64_neg NegZero = Fin 0"
| "f64_neg PosInf = NegInf"
| "f64_neg NegInf = PosInf"
| "f64_neg NaN = NaN"

text \<open>
  \<open>a + b\<close>: nan when an operand is nan or the operands are opposite infinities; an
  infinite operand otherwise wins; two negative zeros give negative zero, any other
  sum that is zero is positive zero.
\<close>

definition f64_add :: "float64 \<Rightarrow> float64 \<Rightarrow> float64" where
  "f64_add a b =
    (if a = NaN \<or> b = NaN then NaN
     else if is_inf a \<and> is_inf b then (if a = b then a else NaN)
     else if is_inf a then a
     else if is_inf b then b
     else if a = NegZero \<and> b = NegZero then NegZero
     else Fin (number a + number b))"

definition f64_sub :: "float64 \<Rightarrow> float64 \<Rightarrow> float64" where
  "f64_sub a b = f64_add a (f64_neg b)"

text \<open>
  \<open>a * b\<close>: nan when an operand is nan or for zero times infinity; otherwise the sign
  is the exclusive or of the signs, and the product is infinite when an operand is,
  zero when an operand is.
\<close>

definition f64_mul :: "float64 \<Rightarrow> float64 \<Rightarrow> float64" where
  "f64_mul a b =
    (if a = NaN \<or> b = NaN then NaN
     else if (is_inf a \<and> is_zero b) \<or> (is_zero a \<and> is_inf b) then NaN
     else if is_inf a \<or> is_inf b then signed_inf (sign_bit a \<noteq> sign_bit b)
     else if is_zero a \<or> is_zero b then signed_zero (sign_bit a \<noteq> sign_bit b)
     else Fin (number a * number b))"

text \<open>
  \<open>a / b\<close> on numpy scalars: nan when an operand is nan, for zero by zero and for
  infinity by infinity; otherwise the sign is the exclusive or of the signs, the
  quotient is infinite when the dividend is infinite or the divisor zero, and zero when
  the divisor is infinite or the dividend zero.
\<close>

definition f64_div :: "float64 \<Rightarrow> float64 \<Rightarrow> float64" where
  "f64_div a b =
    (if a = NaN \<or> b = NaN then NaN
     else if (is_inf a \<and> is_inf b) \<or> (is_zero a \<and> is_zero b) then NaN
     else if is_inf a \<or> is_zero b then signed_inf (sign_bit a \<noteq> sign_bit b)
     else if is_inf b \<or> is_zero a then signed_zero (sign_bit a \<noteq> sign_bit b)
     else Fin (number a / number b))"

fun f64_abs :: "float64 \<Rightarrow> float64" where
  "f64_abs (Fin x) = Fin \<bar>x\<bar>"
| "f64_abs NegZero = Fin 0"
| "f64_abs PosInf = PosInf"
| "f64_abs NegInf = PosInf"
| "f64_abs NaN = NaN"

text \<open>\<open>a > b\<close>: false when an operand is nan; the two zeros are equal.\<close>

definition f64_gt :: "float64 \<Rightarrow> float64 \<Rightarrow> bool" where
  "f64_gt a b =
    (if a = NaN \<or> b = NaN then False
     else if a = PosInf then b \<noteq> PosInf
     else if b = NegInf then a \<noteq> NegInf
     else if a = NegInf \<or> b = PosInf then False
     else number a > number b)"

text \<open>
  \<^verbatim>\<open>round(x)\<close> with one argument converts the rounded float to an integer, for a
  Python float and for a numpy scalar: it raises \<^verbatim>\<open>ValueError\<close> on nan and
  \<^verbatim>\<open>OverflowError\<close> on an infinity. The fit only prints the result, so what is kept
  here is the exception, if any.
\<close>

fun round_error :: "float64 \<Rightarrow> error option" where
  "round_error (Fin x) = None"
| "round_error NegZero = None"
| "round_error PosInf = Some OverflowError"
| "round_error NegInf = Some OverflowError"
| "round_error NaN = Some ValueError"

subsection \<open>\<^verbatim>\<open>FourBodyProblemComplex\<close> objects\<close>

text \<open>
  The instance fields of a \<^verbatim>\<open>FourBodyProblemComplex\<close>, each named after
  \<^verbatim>\<open>self.<field>\<close>. \<^verbatim>\<open>initial_conditions\<close> is a class attribute, \<^verbatim>\<open>solution\<close> is
  \<^verbatim>\<open>None\<close> until the first \<^verbatim>\<open>solve\<close>. The ocean mass and the arrays of a solution are
  floats: the fit can assign an infinite mass, and a solver can return anything for
  it.
\<close>

record FourBodyProblemComplex =
  self_initial_conditions :: "real list"
  self_time_boundaries :: "real \<times> real"
  self_data_points_amount :: int
  self_m_O :: float64
  self_solution :: "(string \<rightharpoonup> float64 list) option"

definition FourBodyProblemComplex_init :: "real \<times> real \<Rightarrow> int \<Rightarrow> FourBodyProblemComplex" where
  "FourBodyProblemComplex_init tb n =
    \<lparr> self_initial_conditions = FourBodyProblemComplex_initial_conditions,
      self_time_boundaries = tb,
      self_data_points_amount = n,
      self_m_O = Fin m_O,
      self_solution = None \<rparr>"

text \<open>
  \<^verbatim>\<open>solve\<close> passes the object itself to the solver, which reads four attributes of it:
  \<^verbatim>\<open>differential_equation_function\<close>, \<^verbatim>\<open>initial_conditions\<close>, \<^verbatim>\<open>time_boundaries\<close>
  and \<^verbatim>\<open>data_points_amount\<close>. The first holds the bound method \<^verbatim>\<open>self.f\<close>, which
  reads \<^verbatim>\<open>self.m_O\<close> each time it is called and nothing else of the object: for an
  ocean mass that is a number \<open>m\<close> it is \<open>FourBodyProblemComplex_f m\<close>, for an infinite
  one or nan the same formulas in float arithmetic. The bound method is recorded by
  the ocean mass it reads; \<open>as_model\<close> is what a solver sees of the object at the time
  of the call.
\<close>

record bound_model =
  bound_m_O :: float64
  bound_initial_conditions :: "real list"
  bound_time_boundaries :: "real \<times> real"
  bound_data_points_amount :: int

definition as_model :: "FourBodyProblemComplex \<Rightarrow> bound_model" where
  "as_model self =
    \<lparr> bound_m_O = self_m_O self,
      bound_initial_conditions = self_initial_conditions self,
      bound_time_boundaries = self_time_boundaries self,
      bound_data_points_amount = self_data_points_amount self \<rparr>"

type_synonym object_solver = "bound_model \<Rightarrow> error + float64 list \<times> float64 state_series"

text \<open>
  The same view in the form that the solvers of this theory read, with the bound method
  as a function on real numbers: defined when the ocean mass is a number.
\<close>

definition number_model :: "bound_model \<Rightarrow> model option" where
  "number_model differential_equation =
    (case bound_m_O differential_equation of
       Fin m \<Rightarrow>
         Some \<lparr> differential_equation_function = FourBodyProblemComplex_f m,
                initial_conditions = bound_initial_conditions differential_equation,
                time_boundaries = bound_time_boundaries differential_equation,
                data_points_amount = bound_data_points_amount differential_equation \<rparr>
     | _ \<Rightarrow> None)"

text \<open>
  The dictionary built from a solver's result: \<^verbatim>\<open>solution[1].T[j]\<close> is column \<open>j\<close>
  of the state matrix. A Python list has no \<^verbatim>\<open>.T\<close>; a matrix with fewer than 14
  columns has no row 13 in its transpose.
\<close>

definition column :: "nat \<Rightarrow> 'a list list \<Rightarrow> 'a list" where
  "column j rows = map (\<lambda>row. row ! j) rows"

definition FourBodyProblemComplex_solution ::
  "float64 list \<Rightarrow> float64 state_series \<Rightarrow> error + (string \<rightharpoonup> float64 list)" where
  "FourBodyProblemComplex_solution t y =
    (case y of
       PyList rows \<Rightarrow> Inl AttributeError
     | NdArray rows \<Rightarrow>
         if \<exists>row \<in> set rows. length row < 14 then Inl IndexError
         else Inr (map_of
           [(''t'', t),
            (''x_E'', column 0 rows), (''vx_E'', column 1 rows),
            (''y_E'', column 2 rows), (''vy_E'', column 3 rows),
            (''x_M'', column 4 rows), (''vx_M'', column 5 rows),
            (''y_M'', column 6 rows), (''vy_M'', column 7 rows),
            (''phi1'', column 8 rows), (''vphi1'', column 9 rows),
            (''phi2'', column 10 rows), (''vphi2'', column 11 rows),
            (''phi_E'', column 12 rows), (''vphi_E'', column 13 rows)]))"

text \<open>
  \<^verbatim>\<open>FourBodyProblemComplex.solve(self, solver=MagicSolver(), m_O=m_O)\<close>. An absent
  \<open>m_O\<close> argument is \<open>None\<close> here and stands for the default, the global constant.
  The assignment \<^verbatim>\<open>self.m_O = m_O\<close> comes first, so it has happened even when the
  solver raises; the second component is the exception, if any.
\<close>

definition FourBodyProblemComplex_solve ::
  "object_solver \<Rightarrow> float64 option \<Rightarrow> FourBodyProblemComplex \<Rightarrow>
   FourBodyProblemComplex \<times> error option" where
  "FourBodyProblemComplex_solve solver m_O_arg self =
    (let self1 = self\<lparr>self_m_O := (case m_O_arg of None \<Rightarrow> Fin m_O | Some v \<Rightarrow> v)\<rparr> in
     case solver (as_model self1) of
       Inl e \<Rightarrow> (self1, Some e)
     | Inr (t, y) \<Rightarrow>
        (case FourBodyProblemComplex_solution t y of
           Inl e \<Rightarrow> (self1, Some e)
         | Inr sol \<Rightarrow> (self1\<lparr>self_solution := Some sol\<rparr>, None)))"

subsection \<open>The ocean-mass fit of \<^verbatim>\<open>exercise_2_3_c.py\<close>\<close>

text \<open>
  \<^verbatim>\<open>_calculate_current_tau\<close>: with \<open>t_one_year = int(len(t) / 2)\<close>, the angular
  velocity of Earth's rotation is continued for 100 years along the line through its
  sample at \<open>t_one_year\<close> and its last sample; the result is the difference of the two
  day lengths. The operands are elements of numpy arrays, so every operation is one
  on floats: a zero divisor gives an infinity or nan, and the function returns it.
\<close>

definition calculate_current_tau :: "FourBodyProblemComplex \<Rightarrow> error + float64" where
  "calculate_current_tau self =
    (case self_solution self of
       None \<Rightarrow> Inl TypeError
     | Some sol \<Rightarrow>
        (case (sol ''t'', sol ''vphi_E'') of
           (Some t, Some vphi_E) \<Rightarrow>
             let t_one_year = length t div 2 in
             if length vphi_E \<le> t_one_year \<or> length t \<le> t_one_year then Inl IndexError
             else
               let final_angular_velocity =
                     f64_add (vphi_E ! t_one_year)
                       (f64_mul (Fin (100 * 365.24 * 24 * 3600))
                          (f64_div (f64_sub (last vphi_E) (vphi_E ! t_one_year))
                                   (f64_sub (last t) (t ! t_one_year))))
               in Inr (f64_mul (Fin (2 * pi))
                         (f64_sub (f64_div (Fin 1) final_angular_velocity)
                                  (f64_div (Fin 1) (vphi_E ! t_one_year))))
         | _ \<Rightarrow> Inl KeyError))"

definition accuracy :: real where "accuracy = 0.01"

text \<open>
  One call of \<^verbatim>\<open>solve(m_O=current_m_O)\<close> followed by \<^verbatim>\<open>_calculate_current_tau\<close>.
  The fit calls \<^verbatim>\<open>solve\<close> without a solver, that is with \<^verbatim>\<open>MagicSolver()\<close>, which
  hands the problem to \<^verbatim>\<open>scipy.integrate.solve_ivp\<close>; the solver is a parameter here.
\<close>

definition solve_and_measure ::
  "object_solver \<Rightarrow> float64 \<Rightarrow> FourBodyProblemComplex \<Rightarrow>
   error + FourBodyProblemComplex \<times> float64" where
  "solve_and_measure solver current_m_O self =
    (case FourBodyProblemComplex_solve solver (Some current_m_O) self of
       (self', Some e) \<Rightarrow> Inl e
     | (self', None) \<Rightarrow>
        (case calculate_current_tau self' of
           Inl e \<Rightarrow> Inl e
         | Inr current_tau \<Rightarrow> Inr (self', current_tau)))"

text \<open>
  The loop condition \<^verbatim>\<open>abs(1 - current_tau / tau) > accuracy\<close>. It is a comparison
  of floats, false when \<open>current_tau\<close> is nan.
\<close>

definition exceeds_tolerance :: "float64 \<Rightarrow> bool" where
  "exceeds_tolerance current_tau =
     f64_gt (f64_abs (f64_sub (Fin 1) (f64_div current_tau (Fin tau)))) (Fin accuracy)"

text \<open>
  The body of the \<^verbatim>\<open>while\<close> loop, on the state \<open>(self, current_m_O, current_tau)\<close>.
  \<^verbatim>\<open>current_m_O /= (current_tau / tau)\<close> divides by a numpy scalar: for a zero ratio
  the new mass is infinite, or nan, and the loop body goes on to solve with it. The
  print in the body does not round.
\<close>

definition fit_step ::
  "object_solver \<Rightarrow> FourBodyProblemComplex \<times> float64 \<times> float64 \<Rightarrow>
   error + FourBodyProblemComplex \<times> float64 \<times> float64" where
  "fit_step solver st =
    (case st of (self, current_m_O, current_tau) \<Rightarrow>
       let current_m_O' = f64_div current_m_O (f64_div current_tau (Fin tau)) in
       case solve_and_measure solver current_m_O' self of
         Inl e \<Rightarrow> Inl e
       | Inr (self', current_tau') \<Rightarrow> Inr (self', current_m_O', current_tau'))"

definition fit_continues :: "FourBodyProblemComplex \<times> float64 \<times> float64 \<Rightarrow> bool" where
  "fit_continues st = (case st of (self, current_m_O, current_tau) \<Rightarrow>
     exceeds_tolerance current_tau)"

text \<open>
  The \<^verbatim>\<open>while\<close> loop has no counter. Its result is \<open>None\<close> when it does not return,
  otherwise the exception that ended it or the final \<open>current_m_O\<close> together with the
  object.
\<close>

partial_function (option) fit_loop ::
  "object_solver \<Rightarrow> FourBodyProblemComplex \<times> float64 \<times> float64 \<Rightarrow>
   (error + float64 \<times> FourBodyProblemComplex) option" where
  "fit_loop solver st =
    (if fit_continues st then
       (case fit_step solver st of
          Inl e \<Rightarrow> Some (Inl e)
        | Inr st' \<Rightarrow> fit_loop solver st')
     else Some (Inr (fst (snd st), fst st)))"

text \<open>
  \<^verbatim>\<open>_fit_mass_oceans\<close>. Two of its prints round: the one before the loop prints
  \<^verbatim>\<open>round(current_tau / tau)\<close>, the first one after the loop
  \<^verbatim>\<open>round(current_m_O / 10 ** 12)\<close>, and either raises when its argument is
  infinite or nan. The result is the final \<open>current_m_O\<close>, which the source prints,
  together with the object.
\<close>

definition fit_mass_oceans ::
  "object_solver \<Rightarrow> FourBodyProblemComplex \<Rightarrow>
   (error + float64 \<times> FourBodyProblemComplex) option" where
  "fit_mass_oceans solver four_body_problem_complex =
    (let current_m_O = Fin m_O in
     case solve_and_measure solver current_m_O four_body_problem_complex of
       Inl e \<Rightarrow> Some (Inl e)
     | Inr (self', current_tau) \<Rightarrow>
        (case round_error (f64_div current_tau (Fin tau)) of
           Some e \<Rightarrow> Some (Inl e)
         | None \<Rightarrow>
            (case fit_loop solver (self', current_m_O, current_tau) of
               None \<Rightarrow> None
             | Some (Inl e) \<Rightarrow> Some (Inl e)
             | Some (Inr (final_m_O, self'')) \<Rightarrow>
                (case round_error (f64_div final_m_O (Fin (10 ^ 12))) of
                   Some e \<Rightarrow> Some (Inl e)
                 | None \<Rightarrow> Some (Inr (final_m_O, self''))))))"

text \<open>
  The states the loop passes through, by iteration count: \<open>fit_steps solver st n\<close> is
  the state after \<open>n\<close> passes of the loop body from \<open>st\<close>, whatever the loop condition
  says, and \<open>fit_states solver self n\<close> starts from the state after the first
  \<^verbatim>\<open>solve\<close>.
\<close>

fun fit_steps ::
  "object_solver \<Rightarrow> FourBodyProblemComplex \<times> float64 \<times> float64 \<Rightarrow> nat \<Rightarrow>
   error + FourBodyProblemComplex \<times> float64 \<times> float64" where
  "fit_steps solver st 0 = Inr st"
| "fit_steps solver st (Suc n) =
     (case fit_step solver st of
        Inl e \<Rightarrow> Inl e
      | Inr st' \<Rightarrow> fit_steps solver st' n)"

definition fit_states ::
  "object_solver \<Rightarrow> FourBodyProblemComplex \<Rightarrow> nat \<Rightarrow>
   error + FourBodyProblemComplex \<times> float64 \<times> float64" where
  "fit_states solver self n =
     (case solve_and_measure solver (Fin m_O) self of
        Inl e \<Rightarrow> Inl e
      | Inr (self', current_tau) \<Rightarrow> fit_steps solver (self', Fin m_O, current_tau) n)"

subsection \<open>The fit as a relaxation\<close>

text \<open>
  The fit in the words of its description: a sequence of ocean-mass guesses and of the
  drifts achieved with them. The first guess is the nominal \<open>m_O\<close>; the drift achieved
  with a guess is what \<^verbatim>\<open>_calculate_current_tau\<close> gives after solving with it; the
  next guess is the guess divided by the ratio of the achieved drift to the target
  \<open>tau\<close>, in float arithmetic.
\<close>

definition achieved_tau ::
  "object_solver \<Rightarrow> FourBodyProblemComplex \<Rightarrow> float64 \<Rightarrow> error + float64" where
  "achieved_tau solver self guess =
     (case solve_and_measure solver guess self of
        Inl e \<Rightarrow> Inl e
      | Inr (self', current_tau) \<Rightarrow> Inr current_tau)"

fun relaxation ::
  "object_solver \<Rightarrow> FourBodyProblemComplex \<Rightarrow> nat \<Rightarrow> error + float64 \<times> float64" where
  "relaxation solver self 0 =
     (case achieved_tau solver self (Fin m_O) of
        Inl e \<Rightarrow> Inl e
      | Inr achieved \<Rightarrow> Inr (Fin m_O, achieved))"
| "relaxation solver self (Suc n) =
     (case relaxation solver self n of
        Inl e \<Rightarrow> Inl e
      | Inr (guess, achieved) \<Rightarrow>
          (case achieved_tau solver self (f64_div guess (f64_div achieved (Fin tau))) of
             Inl e \<Rightarrow> Inl e
           | Inr achieved' \<Rightarrow> Inr (f64_div guess (f64_div achieved (Fin tau)), achieved')))"

text \<open>The fields of an object that \<^verbatim>\<open>solve\<close> and the fit never assign.\<close>

definition same_frame :: "FourBodyProblemComplex \<Rightarrow> FourBodyProblemComplex \<Rightarrow> bool" where
  "same_frame a b \<longleftrightarrow>
     self_initial_conditions a = self_initial_conditions b \<and>
     self_time_boundaries a = self_time_boundaries b \<and>
     self_data_points_amount a = self_data_points_amount b"

text \<open>
  The change of the day length over 100 years, from the angular velocity \<open>v\<close> now and
  the slope of the angular velocity: the formula of \<^verbatim>\<open>_calculate_current_tau\<close>.
\<close>

definition tau_from_slope :: "real \<Rightarrow> real \<Rightarrow> real" where
  "tau_from_slope v slope =
     2 * pi * (1 / (v + 100 * 365.24 * 24 * 3600 * slope) - 1 / v)"




subsection \<open>The model classes as a solver sees them\<close>

definition TwoBodyProblem_model :: "real \<times> real \<Rightarrow> int \<Rightarrow> model" where
  "TwoBodyProblem_model tb n =
    \<lparr> differential_equation_function = TwoBodyProblem_f,
      initial_conditions = TwoBodyProblem_initial_conditions,
      time_boundaries = tb,
      data_points_amount = n \<rparr>"

text \<open>
  \<^verbatim>\<open>DifferentialEquation(f, (0,), (0, 2), 2)\<close> with \<^verbatim>\<open>f = lambda t, r: [t]\<close>: a
  right-hand side that depends on the time only.
\<close>

definition ramp_model :: model where
  "ramp_model =
    \<lparr> differential_equation_function = (\<lambda>t r. Inr [t]),
      initial_conditions = [0],
      time_boundaries = (0, 2),
      data_points_amount = 2 \<rparr>"

subsection \<open>Well-formed right-hand sides and the exact sampling grid\<close>

text \<open>A right-hand side for states of \<open>m\<close> components: it returns \<open>m\<close> derivatives.\<close>

definition rhs_ok :: "rhs \<Rightarrow> nat \<Rightarrow> bool" where
  "rhs_ok f m \<longleftrightarrow> (\<forall>t s. length s = m \<longrightarrow> (\<exists>d. f t s = Inr d \<and> length d = m))"

text \<open>The half-open uniform grid: \<open>n\<close> points from \<open>a\<close> in steps of \<open>(b - a) / n\<close>.\<close>

definition grid :: "real \<Rightarrow> real \<Rightarrow> int \<Rightarrow> real list" where
  "grid a b n = map (\<lambda>i. a + real i * ((b - a) / real_of_int n)) [0..<nat n]"

subsection \<open>The sampling grid in binary64 arithmetic\<close>

text \<open>
  Python's \<^verbatim>\<open>float\<close> and numpy's \<^verbatim>\<open>float64\<close> are IEEE 754 binary64 numbers: every
  operation returns the exact result rounded to the nearest number with a 53 bit
  significand, ties to the even significand. The definitions below give that
  rounding for the normal range (no overflow, no subnormal numbers).

  \<open>binary64_exponent x\<close> is the \<open>e\<close> with \<open>2 ^ e \<le> \<bar>x\<bar> < 2 ^ (e + 1)\<close>, computed from the
  bit length of the integer part of \<open>\<bar>x\<bar>\<close>, or of \<open>1 / \<bar>x\<bar>\<close> when \<open>\<bar>x\<bar> < 1\<close>.
\<close>

definition pow2 :: "int \<Rightarrow> real" where
  "pow2 e = (if 0 \<le> e then 2 ^ nat e else 1 / 2 ^ nat (- e))"

definition binary64_exponent :: "real \<Rightarrow> int" where
  "binary64_exponent x =
     (if 1 \<le> \<bar>x\<bar> then bitlen \<lfloor>\<bar>x\<bar>\<rfloor> - 1 else - bitlen (\<lceil>1 / \<bar>x\<bar>\<rceil> - 1))"

definition round_half_even :: "real \<Rightarrow> int" where
  "round_half_even q =
     (let n = \<lfloor>q\<rfloor> in
      if q - real_of_int n < 1 / 2 then n
      else if 1 / 2 < q - real_of_int n then n + 1
      else if even n then n else n + 1)"

definition binary64 :: "real \<Rightarrow> real" where
  "binary64 x =
     (if x = 0 then 0
      else let ulp = pow2 (binary64_exponent x - 52)
           in real_of_int (round_half_even (x / ulp)) * ulp)"

text \<open>
  \<^verbatim>\<open>np.arange(start, stop, step)\<close> on binary64 numbers: numpy takes the length
  \<^verbatim>\<open>ceil((stop - start) / step)\<close> from rounded operations, stores \<open>start\<close> and
  \<open>start + step\<close>, and fills the rest with \<^verbatim>\<open>start + i * delta\<close>, where \<open>delta\<close> is the
  difference of the two stored values.
\<close>

definition arange_binary64 :: "real \<Rightarrow> real \<Rightarrow> real \<Rightarrow> real list" where
  "arange_binary64 start stop step =
     (let len = nat \<lceil>binary64 (binary64 (stop - start) / step)\<rceil>;
          next = binary64 (start + step);
          delta = binary64 (next - start)
      in map (\<lambda>i. if i = 0 then start else if i = 1 then next
                  else binary64 (start + binary64 (real i * delta))) [0..<len])"

text \<open>
  The first lines of both \<^verbatim>\<open>solve\<close> methods, for binary64 bounds \<open>a\<close>, \<open>b\<close> and a
  nonzero \<open>n\<close>: \<^verbatim>\<open>h = (b - a) / n\<close> and \<^verbatim>\<open>t_points = np.arange(a, b, h)\<close>.
\<close>

definition t_points_binary64 :: "real \<Rightarrow> real \<Rightarrow> int \<Rightarrow> real list" where
  "t_points_binary64 a b n =
     (let h = binary64 (binary64 (b - a) / real_of_int n) in arange_binary64 a b h)"

subsection \<open>Stand-ins for the solver of the fit\<close>

text \<open>
  The fit runs on whatever its solver returns. The solvers below serve to instantiate
  the theorems about it. \<open>three_samples v\<close> is a result with three samples at the
  times \<open>0\<close>, \<open>1\<close> and one hundred years later, all state components \<open>0\<close> except the
  angular velocity of Earth's rotation, which is \<open>2 * pi\<close> in the first two samples
  and \<open>v\<close> in the last.

  \<^item> \<open>flat_solver\<close> always returns a constant angular velocity, from which
    \<^verbatim>\<open>_calculate_current_tau\<close> reads the drift \<open>0\<close>.
  \<^item> \<open>proportional_solver\<close> returns a series whose drift is the target times
    \<open>2 * self.m_O / m_O\<close>.
  \<^item> \<open>fading_solver\<close> returns a series with twice the target drift for the nominal
    ocean mass and a single sample for any other; \<open>faded_object\<close> is \<open>fit_problem\<close>
    after the two calls of \<^verbatim>\<open>solve\<close> that the fit makes with it.
  \<^item> \<open>kinked_solver\<close> returns eight samples at the times \<open>0, ..., 7\<close> whose angular
    velocity is \<open>1\<close> up to the last sample, which is \<open>2\<close>; \<open>kinked_object\<close> is a problem
    solved with it.
\<close>

definition sample_row :: "float64 \<Rightarrow> float64 list" where
  "sample_row v = replicate 13 (Fin 0) @ [v]"

definition three_samples :: "float64 \<Rightarrow> error + float64 list \<times> float64 state_series" where
  "three_samples v =
     Inr ([Fin 0, Fin 1, Fin 3155673601],
          NdArray [sample_row (Fin (2 * pi)), sample_row (Fin (2 * pi)), sample_row v])"

definition flat_solver :: object_solver where
  "flat_solver differential_equation = three_samples (Fin (2 * pi))"

definition proportional_solver :: object_solver where
  "proportional_solver differential_equation =
     (case bound_m_O differential_equation of
        Fin m \<Rightarrow> three_samples (Fin (2 * pi / (1 + 2 * m / m_O * tau)))
      | _ \<Rightarrow> three_samples (Fin (2 * pi)))"

definition fading_solver :: object_solver where
  "fading_solver differential_equation =
     (if bound_m_O differential_equation = Fin m_O
      then three_samples (Fin (2 * pi / (1 + 2 * tau)))
      else Inr ([Fin 0], NdArray [sample_row (Fin (2 * pi))]))"



text \<open>The problem of \<^verbatim>\<open>fit_2_3_c_solve_ivp\<close>: two years, 5000 data points.\<close>

definition fit_problem :: FourBodyProblemComplex where
  "fit_problem = FourBodyProblemComplex_init (0, 2 * 365.24 * 24 * 3600) 5000"

definition faded_object :: FourBodyProblemComplex where
  "faded_object =
     fst (FourBodyProblemComplex_solve fading_solver (Some (Fin (m_O / 2)))
            (fst (FourBodyProblemComplex_solve fading_solver (Some (Fin m_O)) fit_problem)))"

section \<open>Properties\<close>

subsection \<open>Facts about the right-hand sides\<close>

lemma tide_loop_length:
  "tide_loop x_E y_E x_M y_M vphi_E d r_N dFN is acc = Inr s \<Longrightarrow>
   length (f_N s) = length (f_N acc) + 2 * length is"
  by (induction "is" arbitrary: acc) (auto simp: Let_def split: if_splits)

lemma tide_loop_ok:
  "(\<forall>i \<in> set is. i + 1 < length r_N) \<Longrightarrow>
   \<exists>s. tide_loop x_E y_E x_M y_M vphi_E d r_N dFN is acc = Inr s"
  by (induction "is" arbitrary: acc) (auto simp: Let_def)

lemma NBodyProblem_f_length:
  assumes "length r = 10 + 2 * N" "0 < N"
  shows "\<exists>d. NBodyProblem_f N t r = Inr d \<and> length d = length r"
proof -
  have "\<forall>i \<in> set (map (\<lambda>j. 2 * j) [0..<N]). i + 1 < length (drop 10 r)"
    using assms by auto
  from tide_loop_ok[OF this] obtain s where
    s: "tide_loop (r ! 0) (r ! 2) (r ! 4) (r ! 6) (r ! 9)
          (sqrt ((r ! 4 - r ! 0)\<^sup>2 + (r ! 6 - r ! 2)\<^sup>2)) (drop 10 r)
          (map (distance_F_moon (r ! 0) (r ! 2) (r ! 4) (r ! 6)) (every_second (drop 10 r)))
          (map (\<lambda>j. 2 * j) [0..<N]) \<lparr>f_N = [], sum_M_x = 0, sum_M_y = 0, sum_E = 0\<rparr> = Inr s"
    by blast
  from tide_loop_length[OF s] have "length (f_N s) = 2 * N" by simp
  with s assms show ?thesis
    by (simp add: NBodyProblem_f_def Let_def)
qed

lemma TwoBodyProblem_f_length:
  "length r = 8 \<Longrightarrow> \<exists>d. TwoBodyProblem_f t r = Inr d \<and> length d = length r"
  by (simp add: TwoBodyProblem_f_def Let_def)

lemma FourBodyProblemSimple_f_length:
  "length r = 12 \<Longrightarrow> \<exists>d. FourBodyProblemSimple_f t r = Inr d \<and> length d = length r"
  by (simp add: FourBodyProblemSimple_f_def Let_def)

lemma FourBodyProblemComplex_f_length:
  "length r = 14 \<Longrightarrow> \<exists>d. FourBodyProblemComplex_f mo t r = Inr d \<and> length d = length r"
  by (simp add: FourBodyProblemComplex_f_def Let_def)

lemma NBodyProblem_initial_conditions_length:
  "length (NBodyProblem_initial_conditions N) = 10 + 2 * N"
proof -
  have "length (concat (map (\<lambda>i. [f i, g i]) xs)) = 2 * length xs"
    for f g :: "nat \<Rightarrow> real" and xs
    by (induction xs) auto
  then show ?thesis
    by (simp add: NBodyProblem_initial_conditions_def del: map_map)
qed

lemma list_of_length_14:
  "length r = 14 \<Longrightarrow>
   \<exists>a0 a1 a2 a3 a4 a5 a6 a7 a8 a9 a10 a11 a12 a13.
     r = [a0, a1, a2, a3, a4, a5, a6, a7, a8, a9, a10, a11, a12, a13]"
  by (auto simp: eval_nat_numeral length_Suc_conv)

lemma upt_0_2: "[0..<2] = [0, 1]"
  by (simp add: upt_rec)

lemma NBody_2_refines_FourBodyComplex:
  assumes "length r = 14"
  shows "\<exists>d. FourBodyProblemComplex_f m_O t r = Inr d \<and>
             NBodyProblem_f 2 t (to_NBody_layout r) = Inr (to_NBody_layout d)"
proof -
  obtain a0 a1 a2 a3 a4 a5 a6 a7 a8 a9 a10 a11 a12 a13 where
    r: "r = [a0, a1, a2, a3, a4, a5, a6, a7, a8, a9, a10, a11, a12, a13]"
    using list_of_length_14[OF assms] by blast
  show ?thesis
    unfolding r
    by (simp add: FourBodyProblemComplex_f_def NBodyProblem_f_def to_NBody_layout_def
        Let_def upt_0_2)
qed

lemma concat_pairs_nth:
  "j < length xs \<Longrightarrow> concat (map (\<lambda>i. [f i, g i]) xs) ! (2 * j) = f (xs ! j)"
proof (induction xs arbitrary: j)
  case Nil
  then show ?case by simp
next
  case (Cons x xs)
  show ?case
  proof (cases j)
    case 0
    then show ?thesis by simp
  next
    case (Suc j')
    with Cons.prems have "j' < length xs" by simp
    from Cons.IH[OF this] Suc show ?thesis by simp
  qed
qed

lemma NBodyProblem_initial_angle:
  "j < N \<Longrightarrow>
   NBodyProblem_initial_conditions N ! (10 + 2 * j) = pi / real N * real (2 * j)"
  using concat_pairs_nth[of j "map (\<lambda>j. 2 * j) [0..<N]"
      "\<lambda>i. pi / real N * real i" "\<lambda>i. 2 * pi / T_M"]
  by (simp add: NBodyProblem_initial_conditions_def nth_append del: map_map)

text \<open>Concrete states used to instantiate the theorems: Earth at the origin, the Moon
  one metre away on the x axis, every tide particle at angle 0.\<close>

lemma tide_apart_example:
  "distance_F_moon 0 0 1 0 0 \<noteq> 0"
  by (simp add: distance_F_moon_def r_E_def)

lemma TwoBody_state_ok_example: "TwoBody_state_ok [0, 0, 0, 0, 1, 0, 0, 0]"
  by (simp add: TwoBody_state_ok_def earth_moon_apart_def)

lemma FourBody_state_ok_example_12:
  "FourBody_state_ok 12 [0, 0, 0, 0, 1, 0, 0, 0, 0, 0, 0, 0]"
  using tide_apart_example
  by (simp add: FourBody_state_ok_def earth_moon_apart_def tide_moon_apart_def)

lemma FourBody_state_ok_example_14:
  "FourBody_state_ok 14 [0, 0, 0, 0, 1, 0, 0, 0, 0, 0, 0, 0, 0, 0]"
  using tide_apart_example
  by (simp add: FourBody_state_ok_def earth_moon_apart_def tide_moon_apart_def)

lemma set_every_second: "set (every_second xs) \<subseteq> set xs"
  by (induction xs rule: every_second.induct) auto

lemma NBody_state_ok_example:
  "NBody_state_ok NBodyProblem_N ([0, 0, 0, 0, 1, 0, 0, 0, 0, 0] @ replicate 20 0)"
proof -
  have "set (every_second (replicate 20 (0::real))) \<subseteq> {0}"
    using set_every_second[of "replicate 20 (0::real)"] by auto
  then show ?thesis
    using tide_apart_example
    by (auto simp: NBody_state_ok_def NBodyProblem_N_def earth_moon_apart_def
        tide_moon_apart_def)
qed

subsection \<open>Facts about the solver loops\<close>

lemma nth_of_take: "take n xs = ys \<Longrightarrow> i < length ys \<Longrightarrow> xs ! i = ys ! i"
  by (metis length_take min_less_iff_conj nth_take)

lemma euler_loop_rows:
  "euler_loop f h ts r rows0 = Inr rows \<Longrightarrow> rows0 \<noteq> [] \<Longrightarrow> last rows0 = r \<Longrightarrow>
   length rows = length rows0 + length ts \<and> take (length rows0) rows = rows0 \<and>
   (\<forall>i < length ts. \<exists>d. f (ts ! i) (rows ! (length rows0 + i - 1)) = Inr d \<and>
        np_iadd (rows ! (length rows0 + i - 1)) (np_scale h d) = Inr (rows ! (length rows0 + i)))"
proof (induction ts arbitrary: r rows0)
  case Nil
  then show ?case by simp
next
  case (Cons t ts)
  from Cons.prems(1) obtain d r' where
    d: "f t r = Inr d" and r': "np_iadd r (np_scale h d) = Inr r'"
    and rec: "euler_loop f h ts r' (rows0 @ [r']) = Inr rows"
    by (auto split: sum.splits)
  from Cons.IH[OF rec] have
    len: "length rows = length rows0 + 1 + length ts"
    and tk: "take (length rows0 + 1) rows = rows0 @ [r']"
    and st: "\<forall>i < length ts. \<exists>d. f (ts ! i) (rows ! (length rows0 + 1 + i - 1)) = Inr d \<and>
        np_iadd (rows ! (length rows0 + 1 + i - 1)) (np_scale h d) = Inr (rows ! (length rows0 + 1 + i))"
    by simp_all
  have pre: "take (length rows0) rows = rows0"
  proof -
    have "take (length rows0) rows = take (length rows0) (take (length rows0 + 1) rows)"
      by simp
    also have "\<dots> = rows0" by (simp only: tk) simp
    finally show ?thesis .
  qed
  have at_len: "rows ! length rows0 = r'"
  proof -
    have "rows ! length rows0 = take (length rows0 + 1) rows ! length rows0" by simp
    also have "\<dots> = r'" by (simp only: tk) simp
    finally show ?thesis .
  qed
  have before: "rows ! (length rows0 - 1) = r"
  proof -
    have "rows ! (length rows0 - 1) = take (length rows0) rows ! (length rows0 - 1)"
      using Cons.prems(2) by simp
    also have "\<dots> = last rows0" using Cons.prems(2) by (simp add: pre last_conv_nth)
    finally show ?thesis using Cons.prems(3) by simp
  qed
  have "\<exists>d. f ((t # ts) ! i) (rows ! (length rows0 + i - 1)) = Inr d \<and>
        np_iadd (rows ! (length rows0 + i - 1)) (np_scale h d) = Inr (rows ! (length rows0 + i))"
    if "i < length (t # ts)" for i
  proof (cases i)
    case 0
    with d r' at_len before show ?thesis by simp
  next
    case (Suc i')
    with that have "i' < length ts" by simp
    with st Suc show ?thesis by simp
  qed
  with len pre show ?case by simp
qed


lemma np_arange_grid:
  assumes "a < b" "0 < n"
  shows "np_arange a b ((b - a) / real_of_int n)
         = Inr (map (\<lambda>i. a + real i * ((b - a) / real_of_int n)) [0..<nat n])"
proof -
  have "(b - a) / ((b - a) / real_of_int n) = real_of_int n"
    using assms by simp
  moreover have "(b - a) / real_of_int n \<noteq> 0" using assms by simp
  ultimately show ?thesis by (simp add: np_arange_def)
qed

lemma EulerSolver_solve_steps:
  assumes tb: "time_boundaries M = (a, b)" and ab: "a < b" and n: "0 < data_points_amount M"
    and res: "EulerSolver_solve M = Inr (t_points, y)"
  shows "t_points = grid a b (data_points_amount M)"
    and "length (rows_of y) = length t_points"
    and "rows_of y ! 0 = initial_conditions M"
    and "\<forall>i. i + 1 < length t_points \<longrightarrow>
          (\<exists>d. differential_equation_function M (t_points ! (i + 1)) (rows_of y ! i) = Inr d \<and>
               np_iadd (rows_of y ! i) (np_scale ((b - a) / real_of_int (data_points_amount M)) d)
                 = Inr (rows_of y ! (i + 1)))"
proof -
  let ?n = "data_points_amount M"
  let ?h = "(b - a) / real_of_int ?n"
  let ?f = "differential_equation_function M"
  have ar: "np_arange a b ?h = Inr (grid a b ?n)"
    using np_arange_grid[OF ab n] by (simp add: grid_def)
  from res tb n ar obtain rows where
    lp: "euler_loop ?f ?h (drop 1 (grid a b ?n)) (initial_conditions M) [initial_conditions M] = Inr rows"
    and t: "t_points = grid a b ?n" and y: "y = NdArray rows"
    by (auto simp: EulerSolver_solve_def Let_def split: sum.splits)
  from euler_loop_rows[OF lp] have
    len: "length rows = 1 + length (drop 1 (grid a b ?n))"
    and tk: "take (length [initial_conditions M]) rows = [initial_conditions M]"
    and st: "\<forall>i < length (drop 1 (grid a b ?n)).
        \<exists>d. ?f (drop 1 (grid a b ?n) ! i) (rows ! i) = Inr d \<and>
            np_iadd (rows ! i) (np_scale ?h d) = Inr (rows ! (1 + i))"
    by simp_all
  have glen: "length (grid a b ?n) = nat ?n" by (simp add: grid_def)
  show "t_points = grid a b ?n" by (rule t)
  show "length (rows_of y) = length t_points"
    using len n by (simp add: y t glen)
  show "rows_of y ! 0 = initial_conditions M"
    using nth_of_take[OF tk, of 0] by (simp add: y)
  show "\<forall>i. i + 1 < length t_points \<longrightarrow>
          (\<exists>d. ?f (t_points ! (i + 1)) (rows_of y ! i) = Inr d \<and>
               np_iadd (rows_of y ! i) (np_scale ?h d) = Inr (rows_of y ! (i + 1)))"
  proof (intro allI impI)
    fix i assume i: "i + 1 < length t_points"
    then have "i < length (drop 1 (grid a b ?n))" by (simp add: t)
    with st obtain d where "?f (drop 1 (grid a b ?n) ! i) (rows ! i) = Inr d"
      "np_iadd (rows ! i) (np_scale ?h d) = Inr (rows ! (1 + i))" by blast
    moreover have "drop 1 (grid a b ?n) ! i = t_points ! (i + 1)"
      using i by (simp add: t)
    ultimately show "\<exists>d. ?f (t_points ! (i + 1)) (rows_of y ! i) = Inr d \<and>
               np_iadd (rows_of y ! i) (np_scale ?h d) = Inr (rows_of y ! (i + 1))"
      by (simp add: y)
  qed
qed

lemma rk_loop_rows:
  "rk_loop f h ts r (Rows rows0) = Inr y \<Longrightarrow> rows0 \<noteq> [] \<Longrightarrow> last rows0 = r \<Longrightarrow>
   (\<exists>rows. y = NdArray rows \<and>
   length rows = length rows0 + length ts \<and> take (length rows0) rows = rows0 \<and>
   (\<forall>i < length ts. \<exists>d. rk_increment f h (ts ! i) (rows ! (length rows0 + i - 1)) = Inr d \<and>
        np_iadd (rows ! (length rows0 + i - 1)) d = Inr (rows ! (length rows0 + i))))"
proof (induction ts arbitrary: r rows0)
  case Nil
  then show ?case by auto
next
  case (Cons t ts)
  from Cons.prems(1) obtain d r' where
    d: "rk_increment f h t r = Inr d" and r': "np_iadd r d = Inr r'"
    and rec: "rk_loop f h ts r' (Rows (rows0 @ [r'])) = Inr y"
    by (auto split: sum.splits)
  from Cons.IH[OF rec] obtain rows where y: "y = NdArray rows" and
    len: "length rows = length rows0 + 1 + length ts"
    and tk: "take (length rows0 + 1) rows = rows0 @ [r']"
    and st: "\<forall>i < length ts. \<exists>d. rk_increment f h (ts ! i) (rows ! (length rows0 + 1 + i - 1)) = Inr d \<and>
        np_iadd (rows ! (length rows0 + 1 + i - 1)) d = Inr (rows ! (length rows0 + 1 + i))"
    by auto
  have pre: "take (length rows0) rows = rows0"
  proof -
    have "take (length rows0) rows = take (length rows0) (take (length rows0 + 1) rows)"
      by simp
    also have "\<dots> = rows0" by (simp only: tk) simp
    finally show ?thesis .
  qed
  have at_len: "rows ! length rows0 = r'"
  proof -
    have "rows ! length rows0 = take (length rows0 + 1) rows ! length rows0" by simp
    also have "\<dots> = r'" by (simp only: tk) simp
    finally show ?thesis .
  qed
  have before: "rows ! (length rows0 - 1) = r"
  proof -
    have "rows ! (length rows0 - 1) = take (length rows0) rows ! (length rows0 - 1)"
      using Cons.prems(2) by simp
    also have "\<dots> = last rows0" using Cons.prems(2) by (simp add: pre last_conv_nth)
    finally show ?thesis using Cons.prems(3) by simp
  qed
  have "\<exists>d. rk_increment f h ((t # ts) ! i) (rows ! (length rows0 + i - 1)) = Inr d \<and>
        np_iadd (rows ! (length rows0 + i - 1)) d = Inr (rows ! (length rows0 + i))"
    if "i < length (t # ts)" for i
  proof (cases i)
    case 0
    with d r' at_len before show ?thesis by simp
  next
    case (Suc i')
    with that have "i' < length ts" by simp
    with st Suc show ?thesis by simp
  qed
  with len pre y show ?case by simp
qed

lemma rk_loop_alias:
  assumes "rk_loop f h (t # ts) r AliasList = Inr y"
  shows "\<exists>rows d. y = NdArray rows \<and> length rows = 2 + length ts \<and>
     rk_increment f h t r = Inr d \<and> np_iadd r d = Inr (rows ! 0) \<and> rows ! 1 = rows ! 0 \<and>
     (\<forall>i < length ts. \<exists>d. rk_increment f h (ts ! i) (rows ! (i + 1)) = Inr d \<and>
        np_iadd (rows ! (i + 1)) d = Inr (rows ! (i + 2)))"
proof -
  from assms obtain d r' where
    d: "rk_increment f h t r = Inr d" and r': "np_iadd r d = Inr r'"
    and rec: "rk_loop f h ts r' (Rows [r', r']) = Inr y"
    by (auto split: sum.splits)
  have "[r', r'] \<noteq> []" "last [r', r'] = r'" by simp_all
  from rk_loop_rows[OF rec this] obtain rows where y: "y = NdArray rows"
    and len0: "length rows = length [r', r'] + length ts"
    and tk0: "take (length [r', r']) rows = [r', r']"
    and st0: "\<forall>i < length ts. \<exists>d.
        rk_increment f h (ts ! i) (rows ! (length [r', r'] + i - 1)) = Inr d \<and>
        np_iadd (rows ! (length [r', r'] + i - 1)) d = Inr (rows ! (length [r', r'] + i))"
    by blast
  from len0 have len: "length rows = 2 + length ts" by simp
  have r0: "rows ! 0 = r'" and r1: "rows ! 1 = r'"
    using nth_of_take[OF tk0, of 0] nth_of_take[OF tk0, of 1] by simp_all
  from st0 have "\<forall>i < length ts. \<exists>d. rk_increment f h (ts ! i) (rows ! (i + 1)) = Inr d \<and>
        np_iadd (rows ! (i + 1)) d = Inr (rows ! (i + 2))"
    by (simp add: add.commute)
  with y len d r' r0 r1 show ?thesis by auto
qed

lemma RungeKuttaSolver_solve_steps:
  assumes tb: "time_boundaries M = (a, b)" and ab: "a < b" and n: "0 < data_points_amount M"
    and res: "RungeKuttaSolver_solve M = Inr (t_points, y)"
  shows "t_points = grid a b (data_points_amount M)"
    and "length (rows_of y) = length t_points"
    and "length t_points = 1 \<longrightarrow> y = PyList [initial_conditions M]"
    and "1 < length t_points \<longrightarrow>
          (\<exists>rows d. y = NdArray rows \<and>
             rk_increment (differential_equation_function M)
               ((b - a) / real_of_int (data_points_amount M)) (t_points ! 1)
               (initial_conditions M) = Inr d \<and>
             np_iadd (initial_conditions M) d = Inr (rows ! 0) \<and> rows ! 1 = rows ! 0 \<and>
             (\<forall>i. 1 \<le> i \<and> i + 1 < length t_points \<longrightarrow>
                (\<exists>d. rk_increment (differential_equation_function M)
                       ((b - a) / real_of_int (data_points_amount M)) (t_points ! (i + 1))
                       (rows ! i) = Inr d \<and>
                     np_iadd (rows ! i) d = Inr (rows ! (i + 1)))))"
proof -
  let ?n = "data_points_amount M"
  let ?h = "(b - a) / real_of_int ?n"
  let ?f = "differential_equation_function M"
  let ?ic = "initial_conditions M"
  have ar: "np_arange a b ?h = Inr (grid a b ?n)"
    using np_arange_grid[OF ab n] by (simp add: grid_def)
  from res tb n ar have
    lp: "rk_loop ?f ?h (drop 1 (grid a b ?n)) ?ic AliasList = Inr y"
    and t: "t_points = grid a b ?n"
    by (auto simp: RungeKuttaSolver_solve_def Let_def split: sum.splits)
  have glen: "length (grid a b ?n) = nat ?n" by (simp add: grid_def)
  show "t_points = grid a b ?n" by (rule t)
  show one: "length t_points = 1 \<longrightarrow> y = PyList [?ic]"
  proof
    assume "length t_points = 1"
    then have "drop 1 (grid a b ?n) = []" by (simp add: t)
    with lp show "y = PyList [?ic]" by simp
  qed
  show more: "1 < length t_points \<longrightarrow>
          (\<exists>rows d. y = NdArray rows \<and>
             rk_increment ?f ?h (t_points ! 1) ?ic = Inr d \<and>
             np_iadd ?ic d = Inr (rows ! 0) \<and> rows ! 1 = rows ! 0 \<and>
             (\<forall>i. 1 \<le> i \<and> i + 1 < length t_points \<longrightarrow>
                (\<exists>d. rk_increment ?f ?h (t_points ! (i + 1)) (rows ! i) = Inr d \<and>
                     np_iadd (rows ! i) d = Inr (rows ! (i + 1)))))"
  proof
    assume gt: "1 < length t_points"
    then obtain ts where ts: "drop 1 (grid a b ?n) = (t_points ! 1) # ts"
      and lts: "length ts = length t_points - 2"
      and nts: "\<forall>i < length ts. ts ! i = t_points ! (i + 2)"
    proof -
      have "drop 1 t_points = (t_points ! 1) # drop 2 t_points"
        using gt by (metis Cons_nth_drop_Suc Suc_1)
      moreover have "length (drop 2 t_points) = length t_points - 2" by simp
      moreover have "\<forall>i < length (drop 2 t_points). drop 2 t_points ! i = t_points ! (i + 2)"
        by (simp add: add.commute)
      ultimately show ?thesis using that t by blast
    qed
    from lp ts have "rk_loop ?f ?h ((t_points ! 1) # ts) ?ic AliasList = Inr y" by simp
    from rk_loop_alias[OF this] obtain rows d where
      y: "y = NdArray rows" and d: "rk_increment ?f ?h (t_points ! 1) ?ic = Inr d"
      and r0: "np_iadd ?ic d = Inr (rows ! 0)" and r1: "rows ! 1 = rows ! 0"
      and st: "\<forall>i < length ts. \<exists>d. rk_increment ?f ?h (ts ! i) (rows ! (i + 1)) = Inr d \<and>
                 np_iadd (rows ! (i + 1)) d = Inr (rows ! (i + 2))"
      by blast
    have "\<exists>d. rk_increment ?f ?h (t_points ! (i + 1)) (rows ! i) = Inr d \<and>
            np_iadd (rows ! i) d = Inr (rows ! (i + 1))"
      if i: "1 \<le> i \<and> i + 1 < length t_points" for i
    proof -
      from i obtain i' where i': "i = i' + 1" by (cases i) auto
      with i lts have "i' < length ts" by simp
      with st nts obtain d where "rk_increment ?f ?h (t_points ! (i' + 2)) (rows ! (i' + 1)) = Inr d"
        "np_iadd (rows ! (i' + 1)) d = Inr (rows ! (i' + 2))" by metis
      then show ?thesis by (simp add: i' numeral_2_eq_2)
    qed
    with y d r0 r1 show "\<exists>rows d. y = NdArray rows \<and>
             rk_increment ?f ?h (t_points ! 1) ?ic = Inr d \<and>
             np_iadd ?ic d = Inr (rows ! 0) \<and> rows ! 1 = rows ! 0 \<and>
             (\<forall>i. 1 \<le> i \<and> i + 1 < length t_points \<longrightarrow>
                (\<exists>d. rk_increment ?f ?h (t_points ! (i + 1)) (rows ! i) = Inr d \<and>
                     np_iadd (rows ! i) d = Inr (rows ! (i + 1))))"
      by blast
  qed
  show "length (rows_of y) = length t_points"
  proof (cases "drop 1 (grid a b ?n)")
    case Nil
    with lp have "y = PyList [?ic]" by simp
    moreover from Nil n have "length t_points = 1" by (simp add: t glen)
    ultimately show ?thesis by simp
  next
    case (Cons t' ts)
    with lp have "rk_loop ?f ?h (t' # ts) ?ic AliasList = Inr y" by simp
    from rk_loop_alias[OF this] obtain rows where "y = NdArray rows" "length rows = 2 + length ts"
      by blast
    moreover have "length t_points = 2 + length ts"
    proof -
      have "length (drop 1 (grid a b ?n)) = Suc (length ts)" using Cons by simp
      then have "length t_points - 1 = Suc (length ts)" by (simp add: t)
      then show ?thesis by arith
    qed
    ultimately show ?thesis by simp
  qed
qed

lemma np_iadd_same_length:
  "length d = length r \<Longrightarrow> np_iadd r d = Inr (map2 (+) r d)"
  by (simp add: np_iadd_def)

lemma np_add_same_length:
  "length a = length b \<Longrightarrow> np_add a b = Inr (map2 (+) a b)"
  by (simp add: np_add_def)

lemma euler_loop_total:
  "rhs_ok f m \<Longrightarrow> length r = m \<Longrightarrow> \<exists>rows. euler_loop f h ts r rows0 = Inr rows"
proof (induction ts arbitrary: r rows0)
  case Nil
  then show ?case by simp
next
  case (Cons t ts)
  from Cons.prems obtain d where d: "f t r = Inr d" "length d = m"
    unfolding rhs_ok_def by blast
  with Cons.prems have step: "np_iadd r (np_scale h d) = Inr (map2 (+) r (np_scale h d))"
    by (simp add: np_iadd_same_length np_scale_def)
  have "length (map2 (+) r (np_scale h d)) = m"
    using d Cons.prems by (simp add: np_scale_def)
  from Cons.IH[OF Cons.prems(1) this] d step show ?case by simp
qed

lemma rk_increment_total:
  assumes "rhs_ok f m" "length r = m"
  shows "\<exists>d. rk_increment f h t r = Inr d \<and> length d = m"
proof -
  have ok: "\<And>t s. length s = m \<Longrightarrow> \<exists>d. f t s = Inr d \<and> length d = m"
    using assms(1) unfolding rhs_ok_def by blast
  from ok[OF assms(2), of t] obtain d1 where d1: "f t r = Inr d1" "length d1 = m" by blast
  let ?k1 = "np_scale h d1"
  let ?r1 = "map2 (+) r (np_div ?k1 2)"
  have r1: "np_add r (np_div ?k1 2) = Inr ?r1" "length ?r1 = m"
    using d1 assms(2) by (simp_all add: np_add_def np_div_def np_scale_def)
  from ok[OF r1(2), of "t + h / 2"] obtain d2 where
    d2: "f (t + h / 2) ?r1 = Inr d2" "length d2 = m" by blast
  let ?k2 = "np_scale h d2"
  let ?r2 = "map2 (+) r (np_div ?k2 2)"
  have r2: "np_add r (np_div ?k2 2) = Inr ?r2" "length ?r2 = m"
    using d2 assms(2) by (simp_all add: np_add_def np_div_def np_scale_def)
  from ok[OF r2(2), of "t + h / 2"] obtain d3 where
    d3: "f (t + h / 2) ?r2 = Inr d3" "length d3 = m" by blast
  let ?k3 = "np_scale h d3"
  let ?r3 = "map2 (+) r ?k3"
  have r3: "np_add r ?k3 = Inr ?r3" "length ?r3 = m"
    using d3 assms(2) by (simp_all add: np_add_def np_scale_def)
  from ok[OF r3(2), of "t + h"] obtain d4 where
    d4: "f (t + h) ?r3 = Inr d4" "length d4 = m" by blast
  let ?k4 = "np_scale h d4"
  let ?s1 = "map2 (+) ?k1 (np_scale 2 ?k2)"
  let ?s2 = "map2 (+) ?s1 (np_scale 2 ?k3)"
  let ?s3 = "map2 (+) ?s2 ?k4"
  have s1: "np_add ?k1 (np_scale 2 ?k2) = Inr ?s1"
    and s2: "np_add ?s1 (np_scale 2 ?k3) = Inr ?s2"
    and s3: "np_add ?s2 ?k4 = Inr ?s3"
    and len: "length (np_div ?s3 6) = m"
    using d1 d2 d3 d4 by (simp_all add: np_add_def np_scale_def np_div_def)
  have "rk_increment f h t r = Inr (np_div ?s3 6)"
    unfolding rk_increment_def
    by (simp only: d1 r1 d2 r2 d3 r3 d4 s1 s2 s3 err_bind_def Let_def sum.case)
  with len show ?thesis by blast
qed

lemma rk_loop_total:
  "rhs_ok f m \<Longrightarrow> length r = m \<Longrightarrow> \<exists>y. rk_loop f h ts r pts = Inr y"
proof (induction ts arbitrary: r pts)
  case Nil
  then show ?case by simp
next
  case (Cons t ts)
  from rk_increment_total[OF Cons.prems, of h t] obtain d where
    d: "rk_increment f h t r = Inr d" "length d = m" by blast
  with Cons.prems have step: "np_iadd r d = Inr (map2 (+) r d)"
    by (simp add: np_iadd_same_length)
  have "length (map2 (+) r d) = m" using d Cons.prems by simp
  from Cons.IH[OF Cons.prems(1) this] d step show ?case by simp
qed

lemma grid_half_open:
  assumes "a < b" "0 < n" "t \<in> set (grid a b n)"
  shows "a \<le> t \<and> t < b"
proof -
  from assms(3) obtain i where i: "i < nat n" and t: "t = a + real i * ((b - a) / real_of_int n)"
    by (auto simp: grid_def)
  have pos: "0 < (b - a) / real_of_int n" using assms by simp
  then have "0 \<le> real i * ((b - a) / real_of_int n)"
    by (intro mult_nonneg_nonneg) simp_all
  moreover have "real i * ((b - a) / real_of_int n) < b - a"
  proof -
    have "real i < real_of_int n" using i assms(2) by linarith
    then have "real i * ((b - a) / real_of_int n) < real_of_int n * ((b - a) / real_of_int n)"
      using pos by (rule mult_strict_right_mono)
    also have "\<dots> = b - a" using assms(2) by simp
    finally show ?thesis .
  qed
  ultimately show ?thesis using t by linarith
qed

lemma solvers_grid_exact:
  assumes tb: "time_boundaries M = (a, b)" and ab: "a < b" and n: "0 < data_points_amount M"
    and ok: "rhs_ok (differential_equation_function M) (length (initial_conditions M))"
  shows "\<exists>y. EulerSolver_solve M = Inr (grid a b (data_points_amount M), y)
            \<and> length (rows_of y) = nat (data_points_amount M)"
    and "\<exists>y. RungeKuttaSolver_solve M = Inr (grid a b (data_points_amount M), y)
            \<and> length (rows_of y) = nat (data_points_amount M)"
    and "length (grid a b (data_points_amount M)) = nat (data_points_amount M)"
    and "\<forall>t \<in> set (grid a b (data_points_amount M)). a \<le> t \<and> t < b"
proof -
  let ?n = "data_points_amount M"
  let ?h = "(b - a) / real_of_int ?n"
  have ar: "np_arange a b ?h = Inr (grid a b ?n)"
    using np_arange_grid[OF ab n] by (simp add: grid_def)
  show glen: "length (grid a b ?n) = nat ?n" by (simp add: grid_def)
  show "\<forall>t \<in> set (grid a b ?n). a \<le> t \<and> t < b"
    using grid_half_open[OF ab n] by blast
  from euler_loop_total[OF ok refl] obtain rows where
    "euler_loop (differential_equation_function M) ?h (drop 1 (grid a b ?n))
       (initial_conditions M) [initial_conditions M] = Inr rows" by blast
  with tb n ar have e: "EulerSolver_solve M = Inr (grid a b ?n, NdArray rows)"
    by (simp add: EulerSolver_solve_def)
  from EulerSolver_solve_steps(2)[OF tb ab n e] glen
  show "\<exists>y. EulerSolver_solve M = Inr (grid a b ?n, y) \<and> length (rows_of y) = nat ?n"
    using e by simp
  from rk_loop_total[OF ok refl] obtain y where
    "rk_loop (differential_equation_function M) ?h (drop 1 (grid a b ?n))
       (initial_conditions M) AliasList = Inr y" by blast
  with tb n ar have r: "RungeKuttaSolver_solve M = Inr (grid a b ?n, y)"
    by (simp add: RungeKuttaSolver_solve_def)
  from RungeKuttaSolver_solve_steps(2)[OF tb ab n r] glen
  show "\<exists>y. RungeKuttaSolver_solve M = Inr (grid a b ?n, y) \<and> length (rows_of y) = nat ?n"
    using r by simp
qed

lemma autonomous_ext: "(\<forall>t t' s. f t s = f t' s) \<Longrightarrow> f t = f t'"
  for f :: rhs
  by (rule ext) blast

lemma rk_increment_autonomous:
  assumes "\<forall>t t' s. f t s = f t' s"
  shows "rk_increment f h t r = rk_increment f h t' r"
proof -
  have "f t = f t'" "f (t + h / 2) = f (t' + h / 2)" "f (t + h) = f (t' + h)"
    using assms by (simp_all add: autonomous_ext)
  then show ?thesis by (simp only: rk_increment_def)
qed

lemma euler_loop_autonomous:
  assumes "\<forall>t t' s. f t s = f t' s"
  shows "length ts = length ts' \<Longrightarrow> euler_loop f h ts r rows = euler_loop f h ts' r rows"
proof (induction ts ts' arbitrary: r rows rule: list_induct2')
  case 1
  show ?case by simp
next
  case (2 x xs)
  then show ?case by simp
next
  case (3 y ys)
  then show ?case by simp
next
  case (4 x xs y ys)
  from assms have "f x = f y" by (rule autonomous_ext)
  with 4 show ?case by (simp split: sum.splits)
qed

lemma rk_loop_autonomous:
  assumes "\<forall>t t' s. f t s = f t' s"
  shows "length ts = length ts' \<Longrightarrow> rk_loop f h ts r pts = rk_loop f h ts' r pts"
proof (induction ts ts' arbitrary: r pts rule: list_induct2')
  case 1
  show ?case by simp
next
  case (2 x xs)
  then show ?case by simp
next
  case (3 y ys)
  then show ?case by simp
next
  case (4 x xs y ys)
  from rk_increment_autonomous[OF assms, of h x r y]
  have "rk_increment f h x r = rk_increment f h y r" .
  with 4 show ?case by (simp split: sum.splits)
qed

lemma TwoBodyProblem_f_autonomous: "\<forall>t t' s. TwoBodyProblem_f t s = TwoBodyProblem_f t' s"
  by (simp add: TwoBodyProblem_f_def)

subsection \<open>Facts about the fit\<close>

lemma same_frame_refl: "same_frame a a"
  by (simp add: same_frame_def)

lemma same_frame_update:
  "same_frame a b \<Longrightarrow>
   a\<lparr>self_m_O := m, self_solution := s\<rparr> = b\<lparr>self_m_O := m, self_solution := s\<rparr>"
  by (cases a, cases b) (simp add: same_frame_def)

lemma same_frame_as_model:
  "same_frame a b \<Longrightarrow> as_model (a\<lparr>self_m_O := m\<rparr>) = as_model (b\<lparr>self_m_O := m\<rparr>)"
  by (simp add: same_frame_def as_model_def)

lemma solve_and_measure_frame:
  assumes "same_frame a b"
  shows "solve_and_measure S m a = solve_and_measure S m b"
proof -
  have "as_model (a\<lparr>self_m_O := m\<rparr>) = as_model (b\<lparr>self_m_O := m\<rparr>)"
    using assms by (rule same_frame_as_model)
  moreover have "a\<lparr>self_m_O := m, self_solution := s\<rparr> = b\<lparr>self_m_O := m, self_solution := s\<rparr>" for s
    using assms by (rule same_frame_update)
  ultimately show ?thesis
    by (simp add: solve_and_measure_def FourBodyProblemComplex_solve_def Let_def
        split: sum.splits prod.splits)
qed

lemma solve_and_measure_result:
  "solve_and_measure S m a = Inr (a', t) \<Longrightarrow> same_frame a a' \<and> self_m_O a' = m"
  by (auto simp: solve_and_measure_def FourBodyProblemComplex_solve_def Let_def same_frame_def
      split: sum.splits prod.splits option.splits)

lemma fit_steps_Suc_last:
  "fit_steps S st (Suc n) = (case fit_steps S st n of Inl e \<Rightarrow> Inl e | Inr s \<Rightarrow> fit_step S s)"
proof (induction n arbitrary: st)
  case 0
  show ?case by (simp split: sum.splits)
next
  case (Suc n)
  show ?case
  proof (cases "fit_step S st")
    case (Inl e)
    then show ?thesis by simp
  next
    case (Inr st')
    with Suc.IH[of st'] show ?thesis by simp
  qed
qed

lemma fit_states_relaxation:
  "(case fit_states S self n of
      Inl e \<Rightarrow> relaxation S self n = Inl e
    | Inr (a, m, t) \<Rightarrow> relaxation S self n = Inr (m, t) \<and> same_frame self a \<and> self_m_O a = m)"
proof (induction n)
  case 0
  show ?case
    using solve_and_measure_result[of S "Fin m_O" self]
    by (auto simp: fit_states_def achieved_tau_def split: sum.splits prod.splits)
next
  case (Suc n)
  show ?case
  proof (cases "solve_and_measure S (Fin m_O) self")
    case (Inl e)
    with Suc show ?thesis
      by (simp add: fit_states_def achieved_tau_def split: sum.splits prod.splits)
  next
    case (Inr p)
    obtain a0 t0 where p: "p = (a0, t0)" by (cases p)
    have st: "fit_states S self (Suc n) =
          (case fit_states S self n of Inl e \<Rightarrow> Inl e | Inr s \<Rightarrow> fit_step S s)"
      using Inr p fit_steps_Suc_last[of S "(a0, Fin m_O, t0)" n] by (simp add: fit_states_def)
    show ?thesis
    proof (cases "fit_states S self n")
      case (Inl e)
      with Suc st show ?thesis by simp
    next
      case (Inr s)
      obtain a m t where s: "s = (a, m, t)" by (cases s)
      from Suc Inr s have rel: "relaxation S self n = Inr (m, t)" and fr: "same_frame self a"
        by simp_all
      have sm: "solve_and_measure S g a = solve_and_measure S g self" for g
        using solve_and_measure_frame[OF fr, of S g] by simp
      define g where "g = f64_div m (f64_div t (Fin tau))"
      show ?thesis
      proof (cases "solve_and_measure S g self")
        case (Inl e)
        with st \<open>fit_states S self n = Inr s\<close> s rel sm show ?thesis
          by (simp add: fit_step_def achieved_tau_def g_def)
      next
        case (Inr q)
        obtain a' t' where q: "q = (a', t')" by (cases q)
        from solve_and_measure_result[of S g self a' t'] Inr q
        have "same_frame self a'" "self_m_O a' = g" by simp_all
        with st \<open>fit_states S self n = Inr s\<close> s rel sm Inr q show ?thesis
          by (simp add: fit_step_def achieved_tau_def g_def)
      qed
    qed
  qed
qed

lemma fit_loop_returns:
  "fit_steps S st K = Inr stK \<Longrightarrow> \<not> fit_continues stK \<Longrightarrow>
   (\<forall>j<K. \<exists>sj. fit_steps S st j = Inr sj \<and> fit_continues sj) \<Longrightarrow>
   fit_loop S st = Some (Inr (fst (snd stK), fst stK))"
proof (induction K arbitrary: st)
  case 0
  then show ?case by (subst fit_loop.simps) simp
next
  case (Suc K)
  from Suc.prems(3) have c: "fit_continues st" by force
  from Suc.prems(1) obtain st' where st': "fit_step S st = Inr st'"
    and rest: "fit_steps S st' K = Inr stK"
    by (auto split: sum.splits)
  have "\<forall>j<K. \<exists>sj. fit_steps S st' j = Inr sj \<and> fit_continues sj"
  proof (intro allI impI)
    fix j assume "j < K"
    then have "Suc j < Suc K" by simp
    with Suc.prems(3) obtain sj where "fit_steps S st (Suc j) = Inr sj" "fit_continues sj"
      by blast
    with st' show "\<exists>sj. fit_steps S st' j = Inr sj \<and> fit_continues sj" by simp
  qed
  from Suc.IH[OF rest Suc.prems(2) this] have "fit_loop S st' = Some (Inr (fst (snd stK), fst stK))" .
  with c st' show ?case by (subst fit_loop.simps) simp
qed

lemma fit_loop_Some_cases:
  assumes "fit_loop S st = Some r"
  shows "\<exists>K. (\<exists>e. fit_steps S st K = Inl e \<and> r = Inl e)
           \<or> (\<exists>sK. fit_steps S st K = Inr sK \<and> \<not> fit_continues sK
                  \<and> r = Inr (fst (snd sK), fst sK))"
proof (rule fit_loop.raw_induct[where
      P = "\<lambda>S st r. \<exists>K. (\<exists>e. fit_steps S st K = Inl e \<and> r = Inl e)
           \<or> (\<exists>sK. fit_steps S st K = Inr sK \<and> \<not> fit_continues sK
                  \<and> r = Inr (fst (snd sK), fst sK))", OF _ assms])
  fix loop :: "object_solver \<Rightarrow> FourBodyProblemComplex \<times> float64 \<times> float64 \<Rightarrow>
               (error + float64 \<times> FourBodyProblemComplex) option"
    and S st r
  assume IH: "\<And>S st r. loop S st = Some r \<Longrightarrow>
            \<exists>K. (\<exists>e. fit_steps S st K = Inl e \<and> r = Inl e)
              \<or> (\<exists>sK. fit_steps S st K = Inr sK \<and> \<not> fit_continues sK
                     \<and> r = Inr (fst (snd sK), fst sK))"
    and body: "(if fit_continues st
                then case fit_step S st of Inl e \<Rightarrow> Some (Inl e) | Inr st' \<Rightarrow> loop S st'
                else Some (Inr (fst (snd st), fst st))) = Some r"
  show "\<exists>K. (\<exists>e. fit_steps S st K = Inl e \<and> r = Inl e)
           \<or> (\<exists>sK. fit_steps S st K = Inr sK \<and> \<not> fit_continues sK
                  \<and> r = Inr (fst (snd sK), fst sK))"
  proof (cases "fit_continues st")
    case False
    with body have "fit_steps S st 0 = Inr st \<and> \<not> fit_continues st
        \<and> r = Inr (fst (snd st), fst st)" by auto
    then show ?thesis by blast
  next
    case True
    show ?thesis
    proof (cases "fit_step S st")
      case (Inl e)
      with True body have "fit_steps S st (Suc 0) = Inl e \<and> r = Inl e" by auto
      then show ?thesis by blast
    next
      case (Inr st')
      with True body have "loop S st' = Some r" by simp
      from IH[OF this] obtain K where
        "(\<exists>e. fit_steps S st' K = Inl e \<and> r = Inl e)
           \<or> (\<exists>sK. fit_steps S st' K = Inr sK \<and> \<not> fit_continues sK
                  \<and> r = Inr (fst (snd sK), fst sK))"
        by blast
      with Inr have "(\<exists>e. fit_steps S st (Suc K) = Inl e \<and> r = Inl e)
          \<or> (\<exists>sK. fit_steps S st (Suc K) = Inr sK \<and> \<not> fit_continues sK
                 \<and> r = Inr (fst (snd sK), fst sK))" by simp
      then show ?thesis by blast
    qed
  qed
qed

lemma fit_loop_diverges:
  assumes "\<forall>j. \<exists>sj. fit_steps S st j = Inr sj \<and> fit_continues sj"
  shows "fit_loop S st = None"
proof (rule ccontr)
  assume "fit_loop S st \<noteq> None"
  then obtain r where "fit_loop S st = Some r" by blast
  from fit_loop_Some_cases[OF this] obtain K where
    "(\<exists>e. fit_steps S st K = Inl e) \<or> (\<exists>sK. fit_steps S st K = Inr sK \<and> \<not> fit_continues sK)"
    by blast
  with assms show False by (metis Inl_Inr_False sum.inject(2))
qed

text \<open>Float arithmetic on numbers.\<close>

lemma f64_add_Fin: "f64_add (Fin a) (Fin b) = Fin (a + b)"
  by (simp add: f64_add_def)

lemma f64_sub_Fin: "f64_sub (Fin a) (Fin b) = Fin (a - b)"
  by (simp add: f64_sub_def f64_add_def)

lemma f64_div_Fin: "a \<noteq> 0 \<Longrightarrow> b \<noteq> 0 \<Longrightarrow> f64_div (Fin a) (Fin b) = Fin (a / b)"
  by (simp add: f64_div_def)

lemma f64_div_Fin_pos: "0 < b \<Longrightarrow> f64_div (Fin a) (Fin b) = Fin (a / b)"
  by (simp add: f64_div_def signed_zero_def)

lemma f64_mul_Fin_pos: "0 < c \<Longrightarrow> f64_mul (Fin c) (Fin x) = Fin (c * x)"
  by (simp add: f64_mul_def signed_zero_def)

lemma extrapolation_Fin:
  assumes "d \<noteq> 0" and "0 < c"
  shows "f64_add (Fin v) (f64_mul (Fin c) (f64_div (Fin n) (Fin d))) = Fin (v + c * (n / d))"
  using assms
  by (cases "n = 0"; cases "d < 0")
     (simp_all add: f64_div_def f64_mul_def f64_add_def signed_zero_def)

lemma tau_pos: "0 < tau"
  by (simp add: tau_def)

lemma exceeds_tolerance_Fin: "exceeds_tolerance (Fin x) \<longleftrightarrow> 0.01 < \<bar>1 - x / tau\<bar>"
  using tau_pos
  by (simp add: exceeds_tolerance_def f64_div_Fin_pos f64_sub_Fin f64_gt_def accuracy_def)

lemma exceeds_tolerance_special:
  "exceeds_tolerance NegZero" "exceeds_tolerance PosInf" "exceeds_tolerance NegInf"
  "\<not> exceeds_tolerance NaN"
  using tau_pos
  by (simp_all add: exceeds_tolerance_def f64_div_def f64_sub_def f64_add_def f64_gt_def
      accuracy_def signed_zero_def signed_inf_def)

lemma calculate_current_tau_two_points:
  assumes sol: "self_solution obj = Some sol"
    and t: "sol ''t'' = Some (map Fin t)" and v: "sol ''vphi_E'' = Some (map Fin v)"
    and lt: "length t div 2 < length t" and lv: "length t div 2 < length v"
    and d: "last t \<noteq> t ! (length t div 2)"
    and v0: "v ! (length t div 2) \<noteq> 0"
    and f0: "v ! (length t div 2) + 100 * 365.24 * 24 * 3600
           * ((last v - v ! (length t div 2)) / (last t - t ! (length t div 2))) \<noteq> 0"
  shows "calculate_current_tau obj
         = Inr (Fin (tau_from_slope (v ! (length t div 2))
                  ((last v - v ! (length t div 2)) / (last t - t ! (length t div 2)))))"
proof -
  define i where "i = length t div 2"
  define c :: real where "c = 100 * 365.24 * 24 * 3600"
  define slope where "slope = (last v - v ! i) / (last t - t ! i)"
  have c: "0 < c" by (simp add: c_def)
  have tne: "t \<noteq> []" and vne: "v \<noteq> []" using lt lv by auto
  have lastt: "last (map Fin t) = Fin (last t)" and lastv: "last (map Fin v) = Fin (last v)"
    using tne vne by (simp_all add: last_map)
  have nth: "map Fin t ! i = Fin (t ! i)" "map Fin v ! i = Fin (v ! i)"
    using lt lv by (simp_all add: i_def)
  have dd: "last t - t ! i \<noteq> 0" using d by (simp add: i_def)
  have final: "f64_add (Fin (v ! i))
                 (f64_mul (Fin c) (f64_div (f64_sub (Fin (last v)) (Fin (v ! i)))
                                            (f64_sub (Fin (last t)) (Fin (t ! i)))))
               = Fin (v ! i + c * slope)"
    unfolding f64_sub_Fin slope_def by (rule extrapolation_Fin[OF dd c])
  have f0': "v ! i + c * slope \<noteq> 0" using f0 by (simp add: i_def c_def slope_def)
  have v0': "v ! i \<noteq> 0" using v0 by (simp add: i_def)
  have inv: "f64_sub (f64_div (Fin 1) (Fin (v ! i + c * slope))) (f64_div (Fin 1) (Fin (v ! i)))
             = Fin (1 / (v ! i + c * slope) - 1 / v ! i)"
    using f0' v0' by (simp add: f64_div_Fin f64_sub_Fin)
  have "calculate_current_tau obj
        = Inr (f64_mul (Fin (2 * pi))
                 (f64_sub
                    (f64_div (Fin 1)
                       (f64_add (map Fin v ! i)
                          (f64_mul (Fin c)
                             (f64_div (f64_sub (last (map Fin v)) (map Fin v ! i))
                                      (f64_sub (last (map Fin t)) (map Fin t ! i))))))
                    (f64_div (Fin 1) (map Fin v ! i))))"
    using lt lv
    by (simp add: calculate_current_tau_def sol t v Let_def i_def c_def del: last_map)
  also have "\<dots> = Inr (f64_mul (Fin (2 * pi)) (Fin (1 / (v ! i + c * slope) - 1 / v ! i)))"
    by (simp only: lastt lastv nth final inv)
  also have "f64_mul (Fin (2 * pi)) (Fin (1 / (v ! i + c * slope) - 1 / v ! i))
             = Fin (2 * pi * (1 / (v ! i + c * slope) - 1 / v ! i))"
    by (rule f64_mul_Fin_pos) simp
  finally show ?thesis
    by (simp add: tau_from_slope_def i_def c_def slope_def)
qed

lemma sample_row_13: "sample_row v ! 13 = v" "length (sample_row v) = 14"
  by (simp_all add: sample_row_def nth_append)

lemma three_samples_solution:
  "\<exists>sol. FourBodyProblemComplex_solution [Fin 0, Fin 1, Fin 3155673601]
            (NdArray [sample_row (Fin a), sample_row (Fin b), sample_row (Fin c)]) = Inr sol
       \<and> sol ''t'' = Some (map Fin [0, 1, 3155673601])
       \<and> sol ''vphi_E'' = Some (map Fin [a, b, c])"
  by (simp add: FourBodyProblemComplex_solution_def sample_row_13 column_def)

lemma three_samples_measure:
  assumes S: "S (as_model (self\<lparr>self_m_O := g\<rparr>)) = three_samples (Fin (2 * pi / (1 + c)))"
    and c: "1 + c \<noteq> 0"
  shows "\<exists>a. solve_and_measure S g self = Inr (a, Fin c)"
proof -
  from three_samples_solution[of "2 * pi" "2 * pi" "2 * pi / (1 + c)"] obtain sol where
    dict: "FourBodyProblemComplex_solution [Fin 0, Fin 1, Fin 3155673601]
      (NdArray [sample_row (Fin (2 * pi)), sample_row (Fin (2 * pi)),
                sample_row (Fin (2 * pi / (1 + c)))]) = Inr sol"
    and t: "sol ''t'' = Some (map Fin [0, 1, 3155673601])"
    and v: "sol ''vphi_E'' = Some (map Fin [2 * pi, 2 * pi, 2 * pi / (1 + c)])"
    by blast
  have solve: "FourBodyProblemComplex_solve S (Some g) self
      = (self\<lparr>self_m_O := g, self_solution := Some sol\<rparr>, None)"
    by (simp add: FourBodyProblemComplex_solve_def S three_samples_def dict)
  have sel: "self_solution (self\<lparr>self_m_O := g, self_solution := Some sol\<rparr>) = Some sol"
    by simp
  have "calculate_current_tau (self\<lparr>self_m_O := g, self_solution := Some sol\<rparr>)
        = Inr (Fin (tau_from_slope ([2 * pi, 2 * pi, 2 * pi / (1 + c)] ! (length [0, 1, 3155673601 :: real] div 2))
                 ((last [2 * pi, 2 * pi, 2 * pi / (1 + c)]
                    - [2 * pi, 2 * pi, 2 * pi / (1 + c)] ! (length [0, 1, 3155673601 :: real] div 2))
                  / (last [0, 1, 3155673601] - [0, 1, 3155673601] ! (length [0, 1, 3155673601 :: real] div 2)))))"
    using c by (intro calculate_current_tau_two_points[OF sel t v]) (simp_all add: field_simps)
  also have "\<dots> = Inr (Fin c)"
    using c by (simp add: tau_from_slope_def field_simps)
  finally show ?thesis using solve by (simp add: solve_and_measure_def)
qed

lemma one_sample_measure:
  assumes S: "S (as_model (self\<lparr>self_m_O := g\<rparr>))
              = Inr ([Fin 0], NdArray [sample_row (Fin (2 * pi))])"
  shows "solve_and_measure S g self
         = Inr (fst (FourBodyProblemComplex_solve S (Some g) self), NaN)"
  by (simp add: solve_and_measure_def FourBodyProblemComplex_solve_def S
      FourBodyProblemComplex_solution_def sample_row_13 column_def calculate_current_tau_def
      f64_sub_Fin f64_div_def f64_mul_def f64_add_def f64_sub_def)

lemma achieved_tau_flat: "achieved_tau flat_solver self g = Inr (Fin 0)"
proof -
  have "flat_solver (as_model (self\<lparr>self_m_O := g\<rparr>)) = three_samples (Fin (2 * pi / (1 + 0)))"
    by (simp add: flat_solver_def)
  from three_samples_measure[where S = flat_solver and self = self and g = g and c = 0, OF this]
  show ?thesis
    by (auto simp: achieved_tau_def)
qed

lemma relaxation_flat:
  "relaxation flat_solver self 0 = Inr (Fin m_O, Fin 0)"
  "relaxation flat_solver self (Suc j) = Inr (PosInf, Fin 0)"
proof -
  show 0: "relaxation flat_solver self 0 = Inr (Fin m_O, Fin 0)"
    by (simp add: achieved_tau_flat)
  have z: "f64_div (Fin 0) (Fin tau) = Fin 0" using tau_pos by (simp add: f64_div_Fin_pos)
  have m: "f64_div (Fin m_O) (Fin 0) = PosInf" "f64_div PosInf (Fin 0) = PosInf"
    by (simp_all add: f64_div_def signed_inf_def m_O_def)
  show "relaxation flat_solver self (Suc j) = Inr (PosInf, Fin 0)"
  proof (induction j)
    case 0
    show ?case using 0 by (simp add: achieved_tau_flat z m)
  next
    case (Suc j)
    then show ?case by (simp add: achieved_tau_flat z m)
  qed
qed

lemma achieved_tau_proportional:
  assumes "0 < g"
  shows "achieved_tau proportional_solver self (Fin g) = Inr (Fin (2 * g / m_O * tau))"
proof -
  have "0 < 2 * g / m_O * tau" using assms tau_pos by (simp add: m_O_def)
  then have nz: "1 + 2 * g / m_O * tau \<noteq> 0" by linarith
  have "proportional_solver (as_model (self\<lparr>self_m_O := Fin g\<rparr>))
      = three_samples (Fin (2 * pi / (1 + 2 * g / m_O * tau)))"
    by (simp add: proportional_solver_def as_model_def)
  from three_samples_measure[where S = proportional_solver and self = self and g = "Fin g"
      and c = "2 * g / m_O * tau", OF this nz]
  show ?thesis
    by (auto simp: achieved_tau_def)
qed

lemma relaxation_fit_states:
  assumes "relaxation S self j = Inr (m', a')"
  shows "\<exists>obj'. fit_states S self j = Inr (obj', m', a') \<and> self_m_O obj' = m'"
  using fit_states_relaxation[of S self j] assms
  by (cases "fit_states S self j") auto

lemma fit_returns_at_first_hit:
  assumes hit: "relaxation S self K = Inr (m, a)" and inside: "\<not> exceeds_tolerance a"
    and outside: "\<forall>j<K. \<exists>m' a'. relaxation S self j = Inr (m', a') \<and> exceeds_tolerance a'"
    and first_print: "relaxation S self 0 = Inr (m0, a0)"
                     "round_error (f64_div a0 (Fin tau)) = None"
    and last_print: "round_error (f64_div m (Fin (10 ^ 12))) = None"
  shows "\<exists>self'. fit_mass_oceans S self = Some (Inr (m, self')) \<and> self_m_O self' = m"
proof -
  from relaxation_fit_states[OF hit] obtain objK where
    K: "fit_states S self K = Inr (objK, m, a)" and mK: "self_m_O objK = m" by blast
  from K obtain obj0 tau0 where
    first: "solve_and_measure S (Fin m_O) self = Inr (obj0, tau0)"
    by (auto simp: fit_states_def split: sum.splits)
  with K have stepsK: "fit_steps S (obj0, Fin m_O, tau0) K = Inr (objK, m, a)"
    by (simp add: fit_states_def)
  from first first_print(1) have "a0 = tau0"
    by (simp add: achieved_tau_def)
  with first_print(2) have r0: "round_error (f64_div tau0 (Fin tau)) = None" by simp
  have stop: "\<not> fit_continues (objK, m, a)"
    using inside by (simp add: fit_continues_def)
  have before: "\<forall>j<K. \<exists>sj. fit_steps S (obj0, Fin m_O, tau0) j = Inr sj \<and> fit_continues sj"
  proof (intro allI impI)
    fix j assume "j < K"
    with outside obtain m' a' where r: "relaxation S self j = Inr (m', a')"
      and out: "exceeds_tolerance a'" by blast
    from relaxation_fit_states[OF r] obtain obj' where
      "fit_states S self j = Inr (obj', m', a')" by blast
    with first have "fit_steps S (obj0, Fin m_O, tau0) j = Inr (obj', m', a')"
      by (simp add: fit_states_def)
    moreover have "fit_continues (obj', m', a')"
      using out by (simp add: fit_continues_def)
    ultimately show "\<exists>sj. fit_steps S (obj0, Fin m_O, tau0) j = Inr sj \<and> fit_continues sj"
      by blast
  qed
  from fit_loop_returns[OF stepsK stop before]
  have "fit_loop S (obj0, Fin m_O, tau0) = Some (Inr (m, objK))" by simp
  with first r0 last_print mK show ?thesis
    by (simp add: fit_mass_oceans_def)
qed

lemma fit_returns_relaxation:
  assumes R: "fit_mass_oceans S self = Some (Inr (m, self'))"
  shows "\<exists>K a. relaxation S self K = Inr (m, a) \<and> \<not> exceeds_tolerance a"
proof -
  from R obtain obj0 tau0 where
    first: "solve_and_measure S (Fin m_O) self = Inr (obj0, tau0)"
    and loop: "fit_loop S (obj0, Fin m_O, tau0) = Some (Inr (m, self'))"
    by (auto simp: fit_mass_oceans_def Let_def split: sum.splits option.splits)
  from fit_loop_Some_cases[OF loop] obtain K sK where
    sK: "fit_steps S (obj0, Fin m_O, tau0) K = Inr sK" and stop: "\<not> fit_continues sK"
    and res: "m = fst (snd sK)" by auto
  obtain objK a where s: "sK = (objK, m, a)" using res by (cases sK) auto
  from first sK s have "fit_states S self K = Inr (objK, m, a)"
    by (simp add: fit_states_def)
  with fit_states_relaxation[of S self K] have "relaxation S self K = Inr (m, a)" by simp
  moreover from stop s have "\<not> exceeds_tolerance a"
    by (simp add: fit_continues_def)
  ultimately show ?thesis by blast
qed

lemma fit_never_returns:
  assumes first_print: "relaxation S self 0 = Inr (m0, a0)"
                       "round_error (f64_div a0 (Fin tau)) = None"
    and H: "\<forall>j. \<exists>m a. relaxation S self j = Inr (m, a) \<and> exceeds_tolerance a"
  shows "fit_mass_oceans S self = None"
proof -
  from relaxation_fit_states[OF first_print(1)] obtain obj0 where
    first: "solve_and_measure S (Fin m_O) self = Inr (obj0, a0)"
    by (auto simp: fit_states_def split: sum.splits)
  have "\<forall>j. \<exists>sj. fit_steps S (obj0, Fin m_O, a0) j = Inr sj \<and> fit_continues sj"
  proof
    fix j
    from H obtain m' a' where r: "relaxation S self j = Inr (m', a')"
      and out: "exceeds_tolerance a'" by blast
    from relaxation_fit_states[OF r] obtain obj' where
      "fit_states S self j = Inr (obj', m', a')" by blast
    with first have "fit_steps S (obj0, Fin m_O, a0) j = Inr (obj', m', a')"
      by (simp add: fit_states_def)
    moreover have "fit_continues (obj', m', a')"
      using out by (simp add: fit_continues_def)
    ultimately show "\<exists>sj. fit_steps S (obj0, Fin m_O, a0) j = Inr sj \<and> fit_continues sj"
      by blast
  qed
  from fit_loop_diverges[OF this] first first_print(2) show ?thesis
    by (simp add: fit_mass_oceans_def)
qed

lemma relaxation_proportional_0:
  "relaxation proportional_solver self 0 = Inr (Fin m_O, Fin (2 * tau))"
proof -
  have "0 < m_O" by (simp add: m_O_def)
  from achieved_tau_proportional[OF this, of self] show ?thesis
    by (simp add: m_O_def)
qed

lemma halve_guess: "f64_div (Fin m_O) (f64_div (Fin (2 * tau)) (Fin tau)) = Fin (m_O / 2)"
  using tau_pos by (simp add: f64_div_Fin_pos f64_div_Fin m_O_def)

lemma relaxation_proportional_1:
  "relaxation proportional_solver self 1 = Inr (Fin (m_O / 2), Fin tau)"
proof -
  have "0 < m_O / 2" by (simp add: m_O_def)
  from achieved_tau_proportional[OF this, of self]
  have "achieved_tau proportional_solver self (Fin (m_O / 2)) = Inr (Fin tau)"
    by (simp add: m_O_def)
  with relaxation_proportional_0[of self] show ?thesis
    by (simp add: halve_guess)
qed

lemma outside_twice: "exceeds_tolerance (Fin (2 * tau))"
  using tau_pos by (simp add: exceeds_tolerance_Fin)

lemma inside_once: "\<not> exceeds_tolerance (Fin tau)"
  using tau_pos by (simp add: exceeds_tolerance_Fin)

lemma fit_proportional_returns:
  "\<exists>self'. fit_mass_oceans proportional_solver self = Some (Inr (Fin (m_O / 2), self'))"
proof -
  have "\<forall>j<1. \<exists>m' a'. relaxation proportional_solver self j = Inr (m', a')
      \<and> exceeds_tolerance a'"
    using relaxation_proportional_0[of self] outside_twice by simp
  moreover have "round_error (f64_div (Fin (2 * tau)) (Fin tau)) = None"
    using tau_pos by (simp add: f64_div_Fin_pos)
  moreover have "round_error (f64_div (Fin (m_O / 2)) (Fin (10 ^ 12))) = None"
    by (simp add: f64_div_Fin_pos)
  ultimately show ?thesis
    using fit_returns_at_first_hit[OF relaxation_proportional_1[of self] inside_once _
        relaxation_proportional_0[of self]] by blast
qed

lemma relaxation_fading_0:
  "relaxation fading_solver self 0 = Inr (Fin m_O, Fin (2 * tau))"
proof -
  have "1 + 2 * tau \<noteq> 0" using tau_pos by simp
  moreover have "fading_solver (as_model (self\<lparr>self_m_O := Fin m_O\<rparr>))
      = three_samples (Fin (2 * pi / (1 + 2 * tau)))"
    by (simp add: fading_solver_def as_model_def)
  ultimately show ?thesis
    using three_samples_measure[where S = fading_solver and self = self and g = "Fin m_O"
        and c = "2 * tau"]
    by (auto simp: achieved_tau_def)
qed

lemma relaxation_fading_1:
  "relaxation fading_solver self 1 = Inr (Fin (m_O / 2), NaN)"
proof -
  have "m_O / 2 \<noteq> m_O" by (simp add: m_O_def)
  then have "fading_solver (as_model (self\<lparr>self_m_O := Fin (m_O / 2)\<rparr>))
      = Inr ([Fin 0], NdArray [sample_row (Fin (2 * pi))])"
    by (simp add: fading_solver_def as_model_def)
  from one_sample_measure[where S = fading_solver and self = self and g = "Fin (m_O / 2)",
      OF this]
  have "achieved_tau fading_solver self (Fin (m_O / 2)) = Inr NaN"
    by (simp add: achieved_tau_def)
  with relaxation_fading_0[of self] show ?thesis
    by (simp add: halve_guess)
qed




subsection \<open>Length of the derivative\<close>

text \<open>
  Claim C7. For each of the four model classes (\<^verbatim>\<open>TwoBodyProblem\<close> with 8 components,
  \<^verbatim>\<open>FourBodyProblemSimple\<close> with 12, \<^verbatim>\<open>FourBodyProblemComplex\<close> with 14,
  \<^verbatim>\<open>NBodyProblem\<close> with \<open>10 + 2 * N\<close> and \<open>N = 10\<close>), at every time and every state of
  that length whose bodies are apart, the right-hand side returns a list as long as
  the state, which is as long as the initial conditions of the class.
\<close>

theorem rhs_length_eq_state_length:
  "(TwoBody_state_ok r2 \<longrightarrow>
      (\<exists>d. TwoBodyProblem_f t r2 = Inr d \<and> length d = length r2
           \<and> length r2 = length TwoBodyProblem_initial_conditions))
   \<and> (FourBody_state_ok 12 r12 \<longrightarrow>
      (\<exists>d. FourBodyProblemSimple_f t r12 = Inr d \<and> length d = length r12
           \<and> length r12 = length FourBodyProblemSimple_initial_conditions))
   \<and> (FourBody_state_ok 14 r14 \<longrightarrow>
      (\<exists>d. FourBodyProblemComplex_f mo t r14 = Inr d \<and> length d = length r14
           \<and> length r14 = length FourBodyProblemComplex_initial_conditions))
   \<and> (NBody_state_ok NBodyProblem_N rn \<longrightarrow>
      (\<exists>d. NBodyProblem_f NBodyProblem_N t rn = Inr d \<and> length d = length rn
           \<and> length rn = length (NBodyProblem_initial_conditions NBodyProblem_N)))"
proof (intro conjI impI)
  assume "TwoBody_state_ok r2"
  then have "length r2 = 8" by (simp add: TwoBody_state_ok_def)
  with TwoBodyProblem_f_length[of r2 t]
  show "\<exists>d. TwoBodyProblem_f t r2 = Inr d \<and> length d = length r2
           \<and> length r2 = length TwoBodyProblem_initial_conditions"
    by (simp add: TwoBodyProblem_initial_conditions_def)
next
  assume "FourBody_state_ok 12 r12"
  then have "length r12 = 12" by (simp add: FourBody_state_ok_def)
  with FourBodyProblemSimple_f_length[of r12 t]
  show "\<exists>d. FourBodyProblemSimple_f t r12 = Inr d \<and> length d = length r12
           \<and> length r12 = length FourBodyProblemSimple_initial_conditions"
    by (simp add: FourBodyProblemSimple_initial_conditions_def)
next
  assume "FourBody_state_ok 14 r14"
  then have "length r14 = 14" by (simp add: FourBody_state_ok_def)
  with FourBodyProblemComplex_f_length[of r14 mo t]
  show "\<exists>d. FourBodyProblemComplex_f mo t r14 = Inr d \<and> length d = length r14
           \<and> length r14 = length FourBodyProblemComplex_initial_conditions"
    by (simp add: FourBodyProblemComplex_initial_conditions_def)
next
  assume "NBody_state_ok NBodyProblem_N rn"
  then have len: "length rn = 10 + 2 * NBodyProblem_N" by (simp add: NBody_state_ok_def)
  have "0 < NBodyProblem_N" by (simp add: NBodyProblem_N_def)
  from NBodyProblem_f_length[OF len this, of t] len
  show "\<exists>d. NBodyProblem_f NBodyProblem_N t rn = Inr d \<and> length d = length rn
           \<and> length rn = length (NBodyProblem_initial_conditions NBodyProblem_N)"
    by (simp add: NBodyProblem_initial_conditions_length)
qed

theorem rhs_length_eq_state_length_witness:
  "TwoBody_state_ok [0, 0, 0, 0, 1, 0, 0, 0]
   \<and> (\<exists>d. TwoBodyProblem_f 0 [0, 0, 0, 0, 1, 0, 0, 0] = Inr d
          \<and> length d = length [0, 0, 0, 0, 1, 0, 0, 0 :: real]
          \<and> length [0, 0, 0, 0, 1, 0, 0, 0 :: real] = length TwoBodyProblem_initial_conditions)
   \<and> FourBody_state_ok 12 [0, 0, 0, 0, 1, 0, 0, 0, 0, 0, 0, 0]
   \<and> (\<exists>d. FourBodyProblemSimple_f 0 [0, 0, 0, 0, 1, 0, 0, 0, 0, 0, 0, 0] = Inr d
          \<and> length d = length [0, 0, 0, 0, 1, 0, 0, 0, 0, 0, 0, 0 :: real]
          \<and> length [0, 0, 0, 0, 1, 0, 0, 0, 0, 0, 0, 0 :: real]
              = length FourBodyProblemSimple_initial_conditions)
   \<and> FourBody_state_ok 14 [0, 0, 0, 0, 1, 0, 0, 0, 0, 0, 0, 0, 0, 0]
   \<and> (\<exists>d. FourBodyProblemComplex_f m_O 0 [0, 0, 0, 0, 1, 0, 0, 0, 0, 0, 0, 0, 0, 0] = Inr d
          \<and> length d = length [0, 0, 0, 0, 1, 0, 0, 0, 0, 0, 0, 0, 0, 0 :: real]
          \<and> length [0, 0, 0, 0, 1, 0, 0, 0, 0, 0, 0, 0, 0, 0 :: real]
              = length FourBodyProblemComplex_initial_conditions)
   \<and> NBody_state_ok NBodyProblem_N ([0, 0, 0, 0, 1, 0, 0, 0, 0, 0] @ replicate 20 0)
   \<and> (\<exists>d. NBodyProblem_f NBodyProblem_N 0 ([0, 0, 0, 0, 1, 0, 0, 0, 0, 0] @ replicate 20 0) = Inr d
          \<and> length d = length ([0, 0, 0, 0, 1, 0, 0, 0, 0, 0] @ replicate 20 (0::real))
          \<and> length ([0, 0, 0, 0, 1, 0, 0, 0, 0, 0] @ replicate 20 (0::real))
              = length (NBodyProblem_initial_conditions NBodyProblem_N))"
  using rhs_length_eq_state_length[of "[0, 0, 0, 0, 1, 0, 0, 0]" 0
      "[0, 0, 0, 0, 1, 0, 0, 0, 0, 0, 0, 0]"
      "[0, 0, 0, 0, 1, 0, 0, 0, 0, 0, 0, 0, 0, 0]" m_O
      "[0, 0, 0, 0, 1, 0, 0, 0, 0, 0] @ replicate 20 0"]
    TwoBody_state_ok_example FourBody_state_ok_example_12 FourBody_state_ok_example_14
    NBody_state_ok_example
  by blast

subsection \<open>The right-hand sides do not read the time\<close>

text \<open>
  Claim C9. Every right-hand side is autonomous: for all times \<open>t\<close> and \<open>t'\<close> and every
  state of the matching length whose bodies are apart, \<open>f t s = f t' s\<close>, for
  \<^verbatim>\<open>TwoBodyProblem.f\<close>, \<^verbatim>\<open>FourBodyProblemSimple.f\<close>, \<^verbatim>\<open>FourBodyProblemComplex.f\<close>
  and \<^verbatim>\<open>NBodyProblem.f\<close>. Consequently the times at which the loop of a fixed-step
  solver evaluates such a right-hand side do not affect what the loop computes.
\<close>

theorem rhs_autonomous:
  "(TwoBody_state_ok s2 \<longrightarrow> TwoBodyProblem_f t s2 = TwoBodyProblem_f t' s2)
   \<and> (FourBody_state_ok 12 s12 \<longrightarrow> FourBodyProblemSimple_f t s12 = FourBodyProblemSimple_f t' s12)
   \<and> (FourBody_state_ok 14 s14 \<longrightarrow>
        FourBodyProblemComplex_f mo t s14 = FourBodyProblemComplex_f mo t' s14)
   \<and> (NBody_state_ok N sn \<longrightarrow> NBodyProblem_f N t sn = NBodyProblem_f N t' sn)
   \<and> ((\<forall>t t' s. f t s = f t' s) \<and> length ts = length ts' \<longrightarrow>
        euler_loop f h ts r rows = euler_loop f h ts' r rows
        \<and> rk_loop f h ts r pts = rk_loop f h ts' r pts)"
proof (intro conjI impI)
  show "TwoBodyProblem_f t s2 = TwoBodyProblem_f t' s2"
    by (simp add: TwoBodyProblem_f_def)
  show "FourBodyProblemSimple_f t s12 = FourBodyProblemSimple_f t' s12"
    by (simp add: FourBodyProblemSimple_f_def)
  show "FourBodyProblemComplex_f mo t s14 = FourBodyProblemComplex_f mo t' s14"
    by (simp add: FourBodyProblemComplex_f_def)
  show "NBodyProblem_f N t sn = NBodyProblem_f N t' sn"
    by (simp add: NBodyProblem_f_def)
next
  assume "(\<forall>t t' s. f t s = f t' s) \<and> length ts = length ts'"
  then show "euler_loop f h ts r rows = euler_loop f h ts' r rows"
    using euler_loop_autonomous[of f ts ts' h r rows] by blast
next
  assume "(\<forall>t t' s. f t s = f t' s) \<and> length ts = length ts'"
  then show "rk_loop f h ts r pts = rk_loop f h ts' r pts"
    using rk_loop_autonomous[of f ts ts' h r pts] by blast
qed

theorem rhs_autonomous_witness:
  "TwoBody_state_ok [0, 0, 0, 0, 1, 0, 0, 0]
   \<and> TwoBodyProblem_f 0 [0, 0, 0, 0, 1, 0, 0, 0] = TwoBodyProblem_f 1 [0, 0, 0, 0, 1, 0, 0, 0]
   \<and> FourBody_state_ok 12 [0, 0, 0, 0, 1, 0, 0, 0, 0, 0, 0, 0]
   \<and> FourBodyProblemSimple_f 0 [0, 0, 0, 0, 1, 0, 0, 0, 0, 0, 0, 0]
       = FourBodyProblemSimple_f 1 [0, 0, 0, 0, 1, 0, 0, 0, 0, 0, 0, 0]
   \<and> FourBody_state_ok 14 [0, 0, 0, 0, 1, 0, 0, 0, 0, 0, 0, 0, 0, 0]
   \<and> FourBodyProblemComplex_f m_O 0 [0, 0, 0, 0, 1, 0, 0, 0, 0, 0, 0, 0, 0, 0]
       = FourBodyProblemComplex_f m_O 1 [0, 0, 0, 0, 1, 0, 0, 0, 0, 0, 0, 0, 0, 0]
   \<and> NBody_state_ok NBodyProblem_N ([0, 0, 0, 0, 1, 0, 0, 0, 0, 0] @ replicate 20 0)
   \<and> NBodyProblem_f NBodyProblem_N 0 ([0, 0, 0, 0, 1, 0, 0, 0, 0, 0] @ replicate 20 0)
       = NBodyProblem_f NBodyProblem_N 1 ([0, 0, 0, 0, 1, 0, 0, 0, 0, 0] @ replicate 20 0)
   \<and> (\<forall>t t' s. TwoBodyProblem_f t s = TwoBodyProblem_f t' s)
   \<and> length [1 :: real] = length [0 :: real]
   \<and> euler_loop TwoBodyProblem_f 1 [1] [0, 0, 0, 0, 1, 0, 0, 0] [[0, 0, 0, 0, 1, 0, 0, 0]]
       = euler_loop TwoBodyProblem_f 1 [0] [0, 0, 0, 0, 1, 0, 0, 0] [[0, 0, 0, 0, 1, 0, 0, 0]]
   \<and> rk_loop TwoBodyProblem_f 1 [1] [0, 0, 0, 0, 1, 0, 0, 0] AliasList
       = rk_loop TwoBodyProblem_f 1 [0] [0, 0, 0, 0, 1, 0, 0, 0] AliasList"
proof -
  have len: "length [1 :: real] = length [0 :: real]" by simp
  from rhs_autonomous[where ?s2.0 = "[0, 0, 0, 0, 1, 0, 0, 0]" and t = 0 and t' = 1
      and ?s12.0 = "[0, 0, 0, 0, 1, 0, 0, 0, 0, 0, 0, 0]"
      and ?s14.0 = "[0, 0, 0, 0, 1, 0, 0, 0, 0, 0, 0, 0, 0, 0]" and mo = m_O
      and N = NBodyProblem_N and sn = "[0, 0, 0, 0, 1, 0, 0, 0, 0, 0] @ replicate 20 0"
      and f = TwoBodyProblem_f and ts = "[1]" and ts' = "[0]" and h = 1
      and r = "[0, 0, 0, 0, 1, 0, 0, 0]" and rows = "[[0, 0, 0, 0, 1, 0, 0, 0]]"
      and pts = AliasList]
    TwoBody_state_ok_example FourBody_state_ok_example_12 FourBody_state_ok_example_14
    NBody_state_ok_example TwoBodyProblem_f_autonomous len
  show ?thesis by blast
qed

subsection \<open>Two tide particles\<close>

text \<open>
  Claim C6. With \<open>N = 2\<close> the right-hand side of \<^verbatim>\<open>NBodyProblem\<close> is the one of
  \<^verbatim>\<open>FourBodyProblemComplex\<close> with the nominal ocean mass \<open>m_O\<close>: at every time and
  every state of 14 components whose bodies are apart, both return the same
  derivatives once the components are put in the other layout (Earth's rotation at
  indices 8 and 9 instead of 12 and 13). The \<open>N\<close> initial tide angles are
  \<open>pi / N * i\<close> for \<open>i = 0, 2, ..., 2N - 2\<close>, which for \<open>N = 2\<close> are the two angles \<open>0\<close> and
  \<open>pi\<close> of \<^verbatim>\<open>FourBodyProblemComplex\<close>.
\<close>

theorem NBody_with_two_particles:
  "(FourBody_state_ok 14 r \<longrightarrow>
      (\<exists>d. FourBodyProblemComplex_f m_O t r = Inr d
           \<and> NBodyProblem_f 2 t (to_NBody_layout r) = Inr (to_NBody_layout d)))
   \<and> (j < N \<longrightarrow> NBodyProblem_initial_conditions N ! (10 + 2 * j) = pi / real N * real (2 * j))
   \<and> NBodyProblem_initial_conditions 2 = to_NBody_layout FourBodyProblemComplex_initial_conditions"
proof (intro conjI impI)
  assume "FourBody_state_ok 14 r"
  then have "length r = 14" by (simp add: FourBody_state_ok_def)
  then show "\<exists>d. FourBodyProblemComplex_f m_O t r = Inr d
           \<and> NBodyProblem_f 2 t (to_NBody_layout r) = Inr (to_NBody_layout d)"
    by (rule NBody_2_refines_FourBodyComplex)
next
  assume "j < N"
  then show "NBodyProblem_initial_conditions N ! (10 + 2 * j) = pi / real N * real (2 * j)"
    by (rule NBodyProblem_initial_angle)
next
  show "NBodyProblem_initial_conditions 2 = to_NBody_layout FourBodyProblemComplex_initial_conditions"
    by (simp add: NBodyProblem_initial_conditions_def FourBodyProblemComplex_initial_conditions_def
        to_NBody_layout_def upt_0_2)
qed

theorem NBody_with_two_particles_witness:
  "FourBody_state_ok 14 [0, 0, 0, 0, 1, 0, 0, 0, 0, 0, 0, 0, 0, 0]
   \<and> (\<exists>d. FourBodyProblemComplex_f m_O 0 [0, 0, 0, 0, 1, 0, 0, 0, 0, 0, 0, 0, 0, 0] = Inr d
          \<and> NBodyProblem_f 2 0 (to_NBody_layout [0, 0, 0, 0, 1, 0, 0, 0, 0, 0, 0, 0, 0, 0])
              = Inr (to_NBody_layout d))
   \<and> (1::nat) < 2
   \<and> NBodyProblem_initial_conditions 2 ! (10 + 2 * 1) = pi / real 2 * real (2 * 1)"
proof -
  have "(1::nat) < 2" by simp
  with NBody_with_two_particles[of "[0, 0, 0, 0, 1, 0, 0, 0, 0, 0, 0, 0, 0, 0]" 0 1 2]
    FourBody_state_ok_example_14
  show ?thesis by blast
qed

subsection \<open>A single data point\<close>

text \<open>
  Claim C8. With \<open>data_points_amount = 1\<close> and \<open>t0 < t1\<close>, \<^verbatim>\<open>EulerSolver.solve\<close> and
  \<^verbatim>\<open>RungeKuttaSolver.solve\<close> both return without an error, with the one time point
  \<open>t0\<close> and the one state row \<open>initial_conditions\<close>: the step is \<open>t1 - t0\<close> and the loop
  over \<^verbatim>\<open>t_points[1:]\<close> has nothing to run over.
\<close>

theorem solve_single_data_point:
  assumes "time_boundaries M = (t0, t1)" and "t0 < t1" and "data_points_amount M = 1"
  shows "EulerSolver_solve M = Inr ([t0], NdArray [initial_conditions M])
       \<and> RungeKuttaSolver_solve M = Inr ([t0], PyList [initial_conditions M])
       \<and> np_arange t0 t1 (t1 - t0) = Inr [t0]"
  using assms
  by (simp add: EulerSolver_solve_def RungeKuttaSolver_solve_def np_arange_def)

theorem solve_single_data_point_witness:
  "time_boundaries (TwoBodyProblem_model (0, 5184000) 1) = (0, 5184000)
   \<and> (0::real) < 5184000
   \<and> data_points_amount (TwoBodyProblem_model (0, 5184000) 1) = 1
   \<and> EulerSolver_solve (TwoBodyProblem_model (0, 5184000) 1)
       = Inr ([0], NdArray [TwoBodyProblem_initial_conditions])
   \<and> RungeKuttaSolver_solve (TwoBodyProblem_model (0, 5184000) 1)
       = Inr ([0], PyList [TwoBodyProblem_initial_conditions])"
proof -
  have tb: "time_boundaries (TwoBodyProblem_model (0, 5184000) 1) = (0, 5184000)"
    and n: "data_points_amount (TwoBodyProblem_model (0, 5184000) 1) = 1"
    and ic: "initial_conditions (TwoBodyProblem_model (0, 5184000) 1)
             = TwoBodyProblem_initial_conditions"
    by (simp_all add: TwoBodyProblem_model_def)
  have lt: "(0::real) < 5184000" by simp
  from solve_single_data_point[OF tb lt n] tb lt n ic show ?thesis by simp
qed

subsection \<open>The time at which a step evaluates the right-hand side\<close>

text \<open>
  Claim C1 says that \<^verbatim>\<open>EulerSolver.solve\<close> computes
  \<open>state (k + 1) = state k + h * rhs (t k) (state k)\<close>, with \<open>t k\<close> the time at which
  \<open>state k\<close> is recorded. The loop runs over \<^verbatim>\<open>t_points[1:]\<close> and passes its loop
  variable to the right-hand side, so the code computes
  \<open>state (k + 1) = state k + h * rhs (t (k + 1)) (state k)\<close> (lemma
  \<open>EulerSolver_solve_steps\<close>). The two differ when the right-hand side reads the time:
  for \<open>rhs t r = [t]\<close> from state \<open>[0]\<close> on \<open>(0, 2)\<close> with two data points, the step is
  \<open>h = 1\<close> and the claim gives the second row \<open>[0 + 1 * 0] = [0]\<close>; the code returns
  \<open>[1]\<close>.
\<close>

theorem EulerSolver_ramp:
  "EulerSolver_solve ramp_model = Inr ([0, 1], NdArray [[0], [1]])"
  by (simp add: EulerSolver_solve_def ramp_model_def np_arange_def upt_0_2 np_iadd_def
      np_scale_def)

text \<open>
  Claim C2 says that a step of \<^verbatim>\<open>RungeKuttaSolver.solve\<close> from the sampled time \<open>t k\<close>
  evaluates the four stages at \<open>t k\<close>, \<open>t k + h / 2\<close>, \<open>t k + h / 2\<close> and \<open>t k + h\<close>. The
  loop has the same shape as the one of \<^verbatim>\<open>EulerSolver\<close>, so the stages are evaluated
  at \<open>t (k + 1)\<close>, \<open>t (k + 1) + h / 2\<close> and \<open>t (k + 1) + h\<close> (lemma
  \<open>RungeKuttaSolver_solve_steps\<close>). For \<open>rhs t r = [t]\<close> from \<open>[0]\<close> on \<open>(0, 2)\<close> with two
  data points the claim gives the increment \<open>(0 + 2 * 1/2 + 2 * 1/2 + 1) / 6 = 1/2\<close>; the
  code adds \<open>(1 + 2 * 3/2 + 2 * 3/2 + 2) / 6 = 3/2\<close>. Both returned rows hold the new
  state, because the first row is the array that was updated in place.
\<close>

theorem RungeKuttaSolver_ramp:
  "RungeKuttaSolver_solve ramp_model = Inr ([0, 1], NdArray [[3 / 2], [3 / 2]])"
  by (simp add: RungeKuttaSolver_solve_def ramp_model_def np_arange_def upt_0_2 np_iadd_def
      np_scale_def rk_increment_def err_bind_def np_add_def np_div_def)

subsection \<open>\<^verbatim>\<open>solve\<close> assigns the ocean mass first\<close>

text \<open>
  Claim C10. Every call of \<^verbatim>\<open>FourBodyProblemComplex.solve\<close> assigns its \<open>m_O\<close> argument
  to the field \<^verbatim>\<open>self.m_O\<close> before it integrates: the field holds the argument
  afterwards, the nominal constant when the argument is absent, whatever it held
  before; the solver runs on the object with the new value, whose right-hand side is
  \<open>FourBodyProblemComplex_f\<close> of that value when it is a number; and
  \<open>initial_conditions\<close>, \<open>time_boundaries\<close> and \<open>data_points_amount\<close> are unchanged.
\<close>

theorem FourBodyProblemComplex_solve_assigns_m_O:
  "self_m_O (fst (FourBodyProblemComplex_solve solver m_O_arg self))
     = (case m_O_arg of None \<Rightarrow> Fin m_O | Some v \<Rightarrow> v)
   \<and> self_m_O (fst (FourBodyProblemComplex_solve solver None self)) = Fin m_O
   \<and> self_initial_conditions (fst (FourBodyProblemComplex_solve solver m_O_arg self))
       = self_initial_conditions self
   \<and> self_time_boundaries (fst (FourBodyProblemComplex_solve solver m_O_arg self))
       = self_time_boundaries self
   \<and> self_data_points_amount (fst (FourBodyProblemComplex_solve solver m_O_arg self))
       = self_data_points_amount self
   \<and> FourBodyProblemComplex_solve solver m_O_arg (self\<lparr>self_m_O := previous\<rparr>)
       = FourBodyProblemComplex_solve solver m_O_arg self
   \<and> FourBodyProblemComplex_solve solver m_O_arg self
       = FourBodyProblemComplex_solve
           (\<lambda>_. solver (as_model (self\<lparr>self_m_O := (case m_O_arg of None \<Rightarrow> Fin m_O | Some v \<Rightarrow> v)\<rparr>)))
           m_O_arg self
   \<and> number_model (as_model (self\<lparr>self_m_O := Fin x\<rparr>))
       = Some \<lparr> differential_equation_function = FourBodyProblemComplex_f x,
                initial_conditions = self_initial_conditions self,
                time_boundaries = self_time_boundaries self,
                data_points_amount = self_data_points_amount self \<rparr>"
  by (auto simp: FourBodyProblemComplex_solve_def Let_def as_model_def number_model_def
      split: sum.splits prod.splits option.splits)

theorem FourBodyProblemComplex_solve_assigns_m_O_witness:
  "self_m_O (fst (FourBodyProblemComplex_solve flat_solver None
     ((FourBodyProblemComplex_init (0, 5184000) 1)\<lparr>self_m_O := Fin 1\<rparr>))) = Fin m_O"
  using FourBodyProblemComplex_solve_assigns_m_O[of flat_solver None
      "(FourBodyProblemComplex_init (0, 5184000) 1)\<lparr>self_m_O := Fin 1\<rparr>"]
  by blast

subsection \<open>How many time points a solver returns\<close>

text \<open>
  In exact arithmetic the grid of both solvers has \<open>data_points_amount\<close> points in
  \<open>[t0, t1)\<close> and one state row per point (lemma \<open>solvers_grid_exact\<close>). The source
  computes with binary64 numbers, and there the number of points comes from the
  rounded quotient \<^verbatim>\<open>(b - a) / h\<close>.
\<close>

lemma binary64_one_tenth: "binary64 (1 / 10) = 3602879701896397 / 2 ^ 55"
  by (simp add: binary64_def binary64_exponent_def bitlen_def compute_floorlog pow2_def
      round_half_even_def Let_def)

lemma binary64_5184000: "binary64 5184000 = 5184000"
  by (simp add: binary64_def binary64_exponent_def bitlen_def compute_floorlog pow2_def
      round_half_even_def Let_def)

lemma binary64_step: "binary64 (5184000 / 7) = 6361460132132571 / 2 ^ 33"
  by (simp add: binary64_def binary64_exponent_def bitlen_def compute_floorlog pow2_def
      round_half_even_def Let_def)

lemma binary64_step_again:
  "binary64 (6361460132132571 / 2 ^ 33) = 6361460132132571 / 2 ^ 33"
  by (simp add: binary64_def binary64_exponent_def bitlen_def compute_floorlog pow2_def
      round_half_even_def Let_def)

lemma binary64_quotient:
  "binary64 (5184000 / (6361460132132571 / 2 ^ 33)) = 7 + 1 / 2 ^ 50"
  by (simp add: binary64_def binary64_exponent_def bitlen_def compute_floorlog pow2_def
      round_half_even_def Let_def)

lemma binary64_seventh_multiple:
  "binary64 (7 * (6361460132132571 / 2 ^ 33)) = 5184000"
  by (simp add: binary64_def binary64_exponent_def bitlen_def compute_floorlog pow2_def
      round_half_even_def Let_def)

text \<open>
  Claim C4 says that for \<open>t0 < t1\<close> and \<open>n \<ge> 1\<close> data points both solvers return exactly
  \<open>n\<close> time points, never the boundary \<open>t1\<close>, and one state row per time point. For the
  default boundaries \<open>(0, 5184000)\<close> and \<open>n = 7\<close> the step \<open>5184000 / 7\<close> is rounded down
  to \<open>6361460132132571 / 2 ^ 33\<close>, the quotient \<open>5184000 / h\<close> is rounded to
  \<open>7 + 2 ^ -50\<close>, and \<^verbatim>\<open>np.arange\<close> takes the ceiling: there are 8 time points, and the
  last one is \<open>5184000\<close>, the boundary \<open>t1\<close>.
\<close>

theorem t_points_binary64_seven:
  "length (t_points_binary64 0 5184000 7) = 8 \<and> t_points_binary64 0 5184000 7 ! 7 = 5184000"
proof -
  define step :: real where "step = 6361460132132571 / 2 ^ 33"
  define quot :: real where "quot = 7 + 1 / 2 ^ 50"
  have H: "binary64 (5184000 / 7) = step"
    unfolding step_def by (rule binary64_step)
  have Q: "binary64 (5184000 / step) = quot"
    unfolding step_def quot_def by (rule binary64_quotient)
  have S: "binary64 step = step"
    unfolding step_def by (rule binary64_step_again)
  have M: "binary64 (7 * step) = 5184000"
    unfolding step_def by (rule binary64_seventh_multiple)
  have "\<lceil>quot\<rceil> = 8"
    unfolding quot_def by (rule ceiling_unique) simp_all
  then have C: "nat \<lceil>quot\<rceil> = 8" by simp
  have T: "t_points_binary64 0 5184000 7 = arange_binary64 0 5184000 step"
    by (simp add: t_points_binary64_def binary64_5184000 H)
  have L: "length (arange_binary64 0 5184000 step) = 8"
    by (simp add: arange_binary64_def Let_def binary64_5184000 Q C)
  have "arange_binary64 0 5184000 step ! 7
        = binary64 (0 + binary64 (real 7 * binary64 (binary64 (0 + step) - 0)))"
    by (simp add: arange_binary64_def Let_def binary64_5184000 Q C)
  also have "\<dots> = 5184000"
    by (simp add: S M binary64_5184000)
  finally show ?thesis using T L by simp
qed

subsection \<open>The ocean-mass fit\<close>




text \<open>
  Claim C5 says that the loop of \<^verbatim>\<open>_fit_mass_oceans\<close> has no iteration cap, that its
  only exit condition is \<open>\<bar>1 - achieved / target\<bar> \<le> 0.01\<close>, and that it therefore runs
  forever on any sequence of achieved drifts that never enters the tolerance band. The
  loop condition is the float comparison \<^verbatim>\<open>abs(1 - current_tau / tau) > accuracy\<close>,
  which is also false for a drift that is nan. With \<open>fading_solver\<close> the first drift is
  twice the target, the second one is nan (a single sample gives \<open>0 / 0\<close> for the
  slope), and the fit returns after one pass of the loop with half the nominal mass,
  although no achieved drift was in the band.
\<close>

theorem fit_mass_oceans_exits_on_nan:
  "relaxation fading_solver fit_problem 0 = Inr (Fin m_O, Fin (2 * tau))
   \<and> 0.01 < \<bar>1 - 2 * tau / tau\<bar>
   \<and> relaxation fading_solver fit_problem 1 = Inr (Fin (m_O / 2), NaN)
   \<and> fit_mass_oceans fading_solver fit_problem = Some (Inr (Fin (m_O / 2), faded_object))"
proof (intro conjI)
  show r0: "relaxation fading_solver fit_problem 0 = Inr (Fin m_O, Fin (2 * tau))"
    by (rule relaxation_fading_0)
  show "0.01 < \<bar>1 - 2 * tau / tau\<bar>" using tau_pos by simp
  show r1: "relaxation fading_solver fit_problem 1 = Inr (Fin (m_O / 2), NaN)"
    by (rule relaxation_fading_1)
  show "fit_mass_oceans fading_solver fit_problem = Some (Inr (Fin (m_O / 2), faded_object))"
  proof -
    have "1 + 2 * tau \<noteq> 0" using tau_pos by simp
    moreover have "fading_solver (as_model (fit_problem\<lparr>self_m_O := Fin m_O\<rparr>))
        = three_samples (Fin (2 * pi / (1 + 2 * tau)))"
      by (simp add: fading_solver_def as_model_def)
    ultimately obtain obj0 where
      first: "solve_and_measure fading_solver (Fin m_O) fit_problem = Inr (obj0, Fin (2 * tau))"
      using three_samples_measure[where S = fading_solver and self = fit_problem
          and g = "Fin m_O" and c = "2 * tau"] by blast
    then have obj0: "obj0 = fst (FourBodyProblemComplex_solve fading_solver (Some (Fin m_O))
                              fit_problem)"
      by (auto simp: solve_and_measure_def split: prod.splits option.splits sum.splits)
    have "m_O / 2 \<noteq> m_O" by (simp add: m_O_def)
    then have "fading_solver (as_model (obj0\<lparr>self_m_O := Fin (m_O / 2)\<rparr>))
        = Inr ([Fin 0], NdArray [sample_row (Fin (2 * pi))])"
      by (simp add: fading_solver_def as_model_def)
    from one_sample_measure[where S = fading_solver and self = obj0 and g = "Fin (m_O / 2)",
        OF this]
    have second: "solve_and_measure fading_solver (Fin (m_O / 2)) obj0
                  = Inr (faded_object, NaN)"
      by (simp add: faded_object_def obj0)
    have step: "fit_step fading_solver (obj0, Fin m_O, Fin (2 * tau))
                = Inr (faded_object, Fin (m_O / 2), NaN)"
      by (simp add: fit_step_def halve_guess second)
    have c0: "fit_continues (obj0, Fin m_O, Fin (2 * tau))"
      by (simp add: fit_continues_def outside_twice)
    have c1: "\<not> fit_continues (faded_object, Fin (m_O / 2), NaN)"
      by (simp add: fit_continues_def exceeds_tolerance_special)
    have "fit_loop fading_solver (faded_object, Fin (m_O / 2), NaN)
          = Some (Inr (Fin (m_O / 2), faded_object))"
      using c1 by (subst fit_loop.simps) simp
    with c0 step have loop: "fit_loop fading_solver (obj0, Fin m_O, Fin (2 * tau))
          = Some (Inr (Fin (m_O / 2), faded_object))"
      by (subst fit_loop.simps) simp
    have p0: "round_error (f64_div (Fin (2 * tau)) (Fin tau)) = None"
      using tau_pos by (simp add: f64_div_Fin_pos)
    have pK: "round_error (f64_div (Fin (m_O / 2)) (Fin (10 ^ 12))) = None"
      by (simp add: f64_div_Fin_pos)
    from first p0 loop pK show ?thesis
      by (simp add: fit_mass_oceans_def)
  qed
qed

text \<open>
  Claim C5 as amended. The loop of \<^verbatim>\<open>_fit_mass_oceans\<close> has no iteration cap, and its
  only exit is that the comparison \<^verbatim>\<open>abs(1 - current_tau / tau) > accuracy\<close> is false.
  If that comparison is true of every achieved drift of the relaxation, the fit does not
  return, provided the first ratio can be rounded for the print before the loop; and
  when the fit returns a mass, the comparison is false of the drift achieved with that
  mass. The comparison is true of a number \<open>x\<close> exactly when \<open>0.01 < \<bar>1 - x / tau\<bar>\<close>,
  true of a zero and of an infinite drift, and false of nan: a zero drift makes the next
  guess infinite and the loop goes on.
\<close>

theorem fit_mass_oceans_unbounded:
  "(relaxation S self 0 = Inr (m0, a0) \<and> round_error (f64_div a0 (Fin tau)) = None
      \<and> (\<forall>j. \<exists>m a. relaxation S self j = Inr (m, a) \<and> exceeds_tolerance a)
    \<longrightarrow> fit_mass_oceans S self = None)
   \<and> (fit_mass_oceans S self = Some (Inr (m, self'))
      \<longrightarrow> (\<exists>K a. relaxation S self K = Inr (m, a) \<and> \<not> exceeds_tolerance a))
   \<and> (exceeds_tolerance (Fin x) \<longleftrightarrow> 0.01 < \<bar>1 - x / tau\<bar>)
   \<and> exceeds_tolerance NegZero \<and> exceeds_tolerance PosInf \<and> exceeds_tolerance NegInf
   \<and> \<not> exceeds_tolerance NaN"
proof (intro conjI impI)
  assume "relaxation S self 0 = Inr (m0, a0) \<and> round_error (f64_div a0 (Fin tau)) = None
      \<and> (\<forall>j. \<exists>m a. relaxation S self j = Inr (m, a) \<and> exceeds_tolerance a)"
  then show "fit_mass_oceans S self = None"
    using fit_never_returns[of S self m0 a0] by blast
next
  assume "fit_mass_oceans S self = Some (Inr (m, self'))"
  then show "\<exists>K a. relaxation S self K = Inr (m, a) \<and> \<not> exceeds_tolerance a"
    by (rule fit_returns_relaxation)
next
  show "exceeds_tolerance (Fin x) \<longleftrightarrow> 0.01 < \<bar>1 - x / tau\<bar>"
    by (rule exceeds_tolerance_Fin)
qed (rule exceeds_tolerance_special)+

theorem fit_mass_oceans_unbounded_witness:
  "relaxation flat_solver fit_problem 0 = Inr (Fin m_O, Fin 0)
   \<and> round_error (f64_div (Fin 0) (Fin tau)) = None
   \<and> (\<forall>j. \<exists>m a. relaxation flat_solver fit_problem j = Inr (m, a) \<and> exceeds_tolerance a)
   \<and> relaxation flat_solver fit_problem 1 = Inr (PosInf, Fin 0)
   \<and> fit_mass_oceans flat_solver fit_problem = None
   \<and> (\<exists>self'. fit_mass_oceans proportional_solver fit_problem
                 = Some (Inr (Fin (m_O / 2), self')))
   \<and> (\<exists>K a. relaxation proportional_solver fit_problem K = Inr (Fin (m_O / 2), a)
          \<and> \<not> exceeds_tolerance a)"
proof -
  have r0: "relaxation flat_solver fit_problem 0 = Inr (Fin m_O, Fin 0)"
    by (rule relaxation_flat)
  have r1: "relaxation flat_solver fit_problem 1 = Inr (PosInf, Fin 0)"
    using relaxation_flat(2)[of fit_problem 0] by simp
  have p0: "round_error (f64_div (Fin 0) (Fin tau)) = None"
    using tau_pos by (simp add: f64_div_Fin_pos)
  have zero: "exceeds_tolerance (Fin 0)" by (simp add: exceeds_tolerance_Fin)
  have flat: "\<forall>j. \<exists>m a. relaxation flat_solver fit_problem j = Inr (m, a)
      \<and> exceeds_tolerance a"
  proof
    fix j
    show "\<exists>m a. relaxation flat_solver fit_problem j = Inr (m, a) \<and> exceeds_tolerance a"
      using zero by (cases j) (simp_all add: relaxation_flat del: relaxation.simps)
  qed
  from fit_proportional_returns[of fit_problem] obtain self' where
    ret: "fit_mass_oceans proportional_solver fit_problem = Some (Inr (Fin (m_O / 2), self'))"
    by blast
  from fit_mass_oceans_unbounded[of flat_solver fit_problem "Fin m_O" "Fin 0"] r0 p0 flat
  have none: "fit_mass_oceans flat_solver fit_problem = None" by blast
  from fit_mass_oceans_unbounded[of proportional_solver fit_problem _ _ "Fin (m_O / 2)" self'] ret
  have "\<exists>K a. relaxation proportional_solver fit_problem K = Inr (Fin (m_O / 2), a)
      \<and> \<not> exceeds_tolerance a" by blast
  with r0 p0 flat r1 none ret show ?thesis by blast
qed

end
